theory Spec2Isabelle
  imports Main "HOL-Library.Word"
begin

unbundle bit_operations_syntax

section \<open>Bytes and Python strings\<close>

text \<open>
  The script \<^verbatim>\<open>tests-e2e/erc20_balances.py\<close> is a linear Python program. Its \<^verbatim>\<open>bytes\<close>
  values are lists of 8-bit words. A \<^verbatim>\<open>str\<close> is a \<^typ>\<open>string\<close>: the text, given by its
  UTF-8 bytes, so that \<^verbatim>\<open>text.encode("utf-8")\<close> reads each character as a byte. All strings
  the script itself builds are ASCII.
\<close>

type_synonym byte = "8 word"
type_synonym bytes = "byte list"
type_synonym lane = "64 word"

definition encode_utf8 :: "string \<Rightarrow> bytes" where
  "encode_utf8 text = map of_char text"

section \<open>Keccak-256\<close>

text \<open>
  \<^verbatim>\<open>eth_utils.keccak\<close> is an external library function: Keccak-256 with the original
  padding byte \<^verbatim>\<open>0x01\<close> (not SHA3-256). It is modelled here as the sponge over
  Keccak-f[1600] with rate 136 bytes; the state is 25 lanes of 64 bits, lane \<open>(x, y)\<close> at
  index \<open>x + 5 * y\<close>.
\<close>

definition rotl64 :: "nat \<Rightarrow> lane \<Rightarrow> lane" where
  "rotl64 n w = push_bit n w OR drop_bit (64 - n) w"

definition round_constants :: "lane list" where
  "round_constants =
    [0x0000000000000001, 0x0000000000008082, 0x800000000000808A, 0x8000000080008000,
     0x000000000000808B, 0x0000000080000001, 0x8000000080008081, 0x8000000000008009,
     0x000000000000008A, 0x0000000000000088, 0x0000000080008009, 0x000000008000000A,
     0x000000008000808B, 0x800000000000008B, 0x8000000000008089, 0x8000000000008003,
     0x8000000000008002, 0x8000000000000080, 0x000000000000800A, 0x800000008000000A,
     0x8000000080008081, 0x8000000000008080, 0x0000000080000001, 0x8000000080008008]"

definition rotation_offsets :: "nat list" where
  "rotation_offsets =
    [ 0,  1, 62, 28, 27,
     36, 44,  6, 55, 20,
      3, 10, 43, 25, 39,
     41, 45, 15, 21,  8,
     18,  2, 61, 56, 14]"

definition theta :: "lane list \<Rightarrow> lane list" where
  "theta a =
    (let c = map (\<lambda>x. a ! x XOR a ! (x + 5) XOR a ! (x + 10) XOR a ! (x + 15) XOR a ! (x + 20))
               [0..<5];
         d = map (\<lambda>x. c ! ((x + 4) mod 5) XOR rotl64 1 (c ! ((x + 1) mod 5))) [0..<5]
     in map (\<lambda>i. a ! i XOR d ! (i mod 5)) [0..<25])"

text \<open>
  \<open>rho\<close> and \<open>pi\<close> together: lane \<open>(x, y)\<close>, rotated by its offset, moves to
  \<open>(y, 2x + 3y)\<close>. Read backwards, the lane at \<open>(X, Y)\<close> comes from \<open>(X + 3Y, X)\<close>.
\<close>

definition rho_pi :: "lane list \<Rightarrow> lane list" where
  "rho_pi a =
    map (\<lambda>i. let X = i mod 5; Y = i div 5; j = (X + 3 * Y) mod 5 + 5 * X
             in rotl64 (rotation_offsets ! j) (a ! j)) [0..<25]"

definition chi :: "lane list \<Rightarrow> lane list" where
  "chi b =
    map (\<lambda>i. let x = i mod 5; y = i div 5
             in b ! i XOR (NOT (b ! ((x + 1) mod 5 + 5 * y)) AND b ! ((x + 2) mod 5 + 5 * y)))
        [0..<25]"

definition iota :: "lane \<Rightarrow> lane list \<Rightarrow> lane list" where
  "iota rc a = a[0 := a ! 0 XOR rc]"

definition keccak_round :: "lane list \<Rightarrow> lane \<Rightarrow> lane list" where
  "keccak_round a rc = iota rc (chi (rho_pi (theta a)))"

definition keccak_f :: "lane list \<Rightarrow> lane list" where
  "keccak_f a = foldl keccak_round a round_constants"

fun lane_of_bytes :: "bytes \<Rightarrow> lane" where
  "lane_of_bytes [] = 0"
| "lane_of_bytes (b # bs) = ucast b OR push_bit 8 (lane_of_bytes bs)"

definition bytes_of_lane :: "lane \<Rightarrow> bytes" where
  "bytes_of_lane w = map (\<lambda>k. ucast (drop_bit (8 * k) w)) [0..<8]"

definition block_lanes :: "bytes \<Rightarrow> lane list" where
  "block_lanes blk = map (\<lambda>i. lane_of_bytes (take 8 (drop (8 * i) blk))) [0..<17]"

definition absorb_block :: "lane list \<Rightarrow> bytes \<Rightarrow> lane list" where
  "absorb_block a blk =
    keccak_f (map (\<lambda>i. if i < 17 then a ! i XOR block_lanes blk ! i else a ! i) [0..<25])"

definition pad :: "bytes \<Rightarrow> bytes" where
  "pad m =
    (let q = 136 - length m mod 136
     in if q = 1 then m @ [0x81] else m @ [0x01] @ replicate (q - 2) 0 @ [0x80])"

function absorb :: "lane list \<Rightarrow> bytes \<Rightarrow> lane list" where
  "absorb a m = (if length m < 136 then a else absorb (absorb_block a (take 136 m)) (drop 136 m))"
  by pat_completeness auto
termination
  by (relation "measure (\<lambda>(a, m). length m)") auto

declare absorb.simps [simp del]

definition keccak_256 :: "bytes \<Rightarrow> bytes" where
  "keccak_256 m = take 32 (concat (map bytes_of_lane (absorb (replicate 25 0) (pad m))))"

text \<open>\<^verbatim>\<open>keccak(text=...)\<close>: the text is encoded as UTF-8, then hashed.\<close>

definition keccak :: "string \<Rightarrow> bytes" where
  "keccak text = keccak_256 (encode_utf8 text)"

section \<open>The function selector\<close>

text \<open>
  \<^verbatim>\<open>def func_selector(text): return keccak(text=text)[:4]\<close>
\<close>

definition func_selector :: "string \<Rightarrow> bytes" where
  "func_selector text = take 4 (keccak text)"

section \<open>Python built-ins used by the script\<close>

text \<open>Exceptions are values: a function that can raise returns \<open>error + 'a\<close>.\<close>

datatype error =
  ValueError          \<comment> \<open>\<^verbatim>\<open>ValueError\<close> or a subclass: a string that is no address, a bad type tag\<close>
| EncodingError       \<comment> \<open>\<^verbatim>\<open>EncodingError\<close> of \<^verbatim>\<open>eth_abi\<close>: a value that does not fit its type\<close>
| Raised string       \<comment> \<open>an exception raised inside a call to the chain-client library\<close>

definition hex_digit :: "nat \<Rightarrow> char" where
  "hex_digit d = ''0123456789abcdef'' ! d"

function digits16 :: "nat \<Rightarrow> string" where
  "digits16 n = (if n < 16 then [hex_digit n] else digits16 (n div 16) @ [hex_digit (n mod 16)])"
  by pat_completeness auto
termination
  by (relation "measure (\<lambda>n. n)") auto

declare digits16.simps [simp del]

text \<open>\<^verbatim>\<open>hex(num)\<close>: a sign, the prefix \<^verbatim>\<open>0x\<close> and the lowercase digits of the magnitude.\<close>

definition hex :: "int \<Rightarrow> string" where
  "hex num = (if num < 0 then ''-0x'' @ digits16 (nat (- num)) else ''0x'' @ digits16 (nat num))"

text \<open>
  \<^verbatim>\<open>s.zfill(width)\<close>: zeros on the left up to \<open>width\<close> characters; a leading sign stays in
  front of the zeros.
\<close>

definition zfill :: "nat \<Rightarrow> string \<Rightarrow> string" where
  "zfill width s =
    (if width \<le> length s then s
     else case s of
       [] \<Rightarrow> replicate width CHR ''0''
     | c # cs \<Rightarrow>
         if c = CHR ''+'' \<or> c = CHR ''-'' then c # replicate (width - length s) CHR ''0'' @ cs
         else replicate (width - length s) CHR ''0'' @ s)"

text \<open>\<^verbatim>\<open>str.lower()\<close> and \<^verbatim>\<open>str.upper()\<close> on ASCII letters; other characters stay.\<close>

definition lower_char :: "char \<Rightarrow> char" where
  "lower_char c =
    (case map_of (zip ''ABCDEFGHIJKLMNOPQRSTUVWXYZ'' ''abcdefghijklmnopqrstuvwxyz'') c of
       None \<Rightarrow> c
     | Some l \<Rightarrow> l)"

definition upper_char :: "char \<Rightarrow> char" where
  "upper_char c =
    (case map_of (zip ''abcdefghijklmnopqrstuvwxyz'' ''ABCDEFGHIJKLMNOPQRSTUVWXYZ'') c of
       None \<Rightarrow> c
     | Some u \<Rightarrow> u)"

definition lower :: "string \<Rightarrow> string" where
  "lower s = map lower_char s"

text \<open>\<^verbatim>\<open>b.hex()\<close> on bytes: two lowercase digits for each byte.\<close>

definition bytes_hex :: "bytes \<Rightarrow> string" where
  "bytes_hex bs = concat (map (\<lambda>b. [hex_digit (unat b div 16), hex_digit (unat b mod 16)]) bs)"

section \<open>Checksum addresses\<close>

text \<open>
  \<^verbatim>\<open>eth_utils.to_checksum_address\<close> is an external library function. On a \<^verbatim>\<open>str\<close> it
  \<^item> raises \<^verbatim>\<open>ValueError\<close> unless the text is a hex string (optional \<^verbatim>\<open>0x\<close>, then hex
    digits),
  \<^item> lowercases it and puts \<^verbatim>\<open>0x\<close> in front (\<^verbatim>\<open>to_normalized_address\<close>), and raises
    \<^verbatim>\<open>ValueError\<close> unless 40 hex digits follow the prefix,
  \<^item> hashes the 40 lowercase digits as text with Keccak-256 and writes digit \<open>i\<close> in upper
    case where hex digit \<open>i\<close> of the hash is above 7.
\<close>

definition is_hex_char :: "char \<Rightarrow> bool" where
  "is_hex_char c = (c \<in> set ''0123456789abcdefABCDEF'')"

definition is_0x_prefixed :: "string \<Rightarrow> bool" where
  "is_0x_prefixed s = (take 2 s = ''0x'' \<or> take 2 s = ''0X'')"

definition remove_0x_prefix :: "string \<Rightarrow> string" where
  "remove_0x_prefix s = (if is_0x_prefixed s then drop 2 s else s)"

definition add_0x_prefix :: "string \<Rightarrow> string" where
  "add_0x_prefix s = (if is_0x_prefixed s then s else ''0x'' @ s)"

definition is_hexstr :: "string \<Rightarrow> bool" where
  "is_hexstr s = (s \<noteq> [] \<and> list_all is_hex_char (remove_0x_prefix s))"

definition is_hex_address :: "string \<Rightarrow> bool" where
  "is_hex_address s =
    (let unprefixed = remove_0x_prefix s
     in length unprefixed = 40 \<and> list_all is_hex_char unprefixed)"

text \<open>
  \<^verbatim>\<open>is_address\<close> on text: a hex address. Its further test of mixed-case input against the
  checksum never applies to the lowercased text \<^verbatim>\<open>to_normalized_address\<close> passes.
\<close>

definition to_normalized_address :: "string \<Rightarrow> error + string" where
  "to_normalized_address s =
    (if remove_0x_prefix s \<noteq> [] \<and> \<not> is_hexstr s then Inl ValueError
     else let hex_address = lower (add_0x_prefix (lower s))
          in if is_hex_address hex_address then Inr hex_address else Inl ValueError)"

text \<open>
  \<^verbatim>\<open>int(c, 16)\<close> of one hex digit. (It raises on any other character; the digits of a hash
  are hex digits.)
\<close>

definition hex_value :: "char \<Rightarrow> nat" where
  "hex_value c =
    (case map_of (zip ''0123456789abcdefABCDEF'' ([0..<16] @ [10..<16])) c of
       None \<Rightarrow> 0
     | Some v \<Rightarrow> v)"

definition checksum_digits :: "string \<Rightarrow> string \<Rightarrow> string" where
  "checksum_digits norm_address address_hash =
    map (\<lambda>i. if 7 < hex_value (address_hash ! i) then upper_char (norm_address ! i)
              else norm_address ! i) [2..<42]"

definition to_checksum_address :: "string \<Rightarrow> error + string" where
  "to_checksum_address s =
    (case to_normalized_address s of
       Inl e \<Rightarrow> Inl e
     | Inr norm_address \<Rightarrow>
         let address_hash = ''0x'' @ bytes_hex (keccak (remove_0x_prefix norm_address))
         in Inr (add_0x_prefix (checksum_digits norm_address address_hash)))"

definition is_checksum_address :: "string \<Rightarrow> bool" where
  "is_checksum_address s = (is_hex_address s \<and> to_checksum_address s = Inr s)"

section \<open>The address of a number\<close>

text \<open>
  \<^verbatim>\<open>def num_to_address(num):
    address_hex = hex(num)[2:]
    address_hex_padded = address_hex.zfill(40)
    return to_checksum_address(address_hex_padded)\<close>
\<close>

definition num_to_address :: "int \<Rightarrow> error + string" where
  "num_to_address num =
    (let address_hex = drop 2 (hex num);
         address_hex_padded = zfill 40 address_hex
     in to_checksum_address address_hex_padded)"

definition CONTRACT_ADDRESS :: "error + string" where
  "CONTRACT_ADDRESS = num_to_address 2050"

section \<open>ABI encoding of call arguments\<close>

text \<open>
  \<^verbatim>\<open>eth_abi.encode(types, args)\<close> is an external library function: the contract ABI
  encoding of the values \<open>args\<close> against the types \<open>types\<close>, laid out as the members of one
  tuple. The model covers the types \<^verbatim>\<open>uint<M>\<close>, \<^verbatim>\<open>int<M>\<close>, \<^verbatim>\<open>bool\<close>, \<^verbatim>\<open>bytes<M>\<close>, \<^verbatim>\<open>bytes\<close>,
  \<^verbatim>\<open>string\<close>, \<^verbatim>\<open>T[]\<close> and tuples; a type tag stands for the type it names. The library
  looks every tag up before it encodes anything, and raises \<^verbatim>\<open>ValueError\<close> for a tag it does
  not accept: a width the ABI does not have, or a tuple type without members. A value that
  does not fit its type, or a list of the wrong length, raises an \<^verbatim>\<open>EncodingError\<close>.
\<close>

datatype abi_type =
  UintT nat | IntT nat | BoolT | BytesNT nat | BytesT | StringT
| ArrayT abi_type | TupleT "abi_type list"

datatype abi_value =
  IntV int | BoolV bool | BytesV bytes | StrV string | SeqV "abi_value list"

fun is_dynamic :: "abi_type \<Rightarrow> bool" and any_dynamic :: "abi_type list \<Rightarrow> bool" where
  "is_dynamic BytesT = True"
| "is_dynamic StringT = True"
| "is_dynamic (ArrayT t) = True"
| "is_dynamic (TupleT ts) = any_dynamic ts"
| "is_dynamic (UintT m) = False"
| "is_dynamic (IntT m) = False"
| "is_dynamic BoolT = False"
| "is_dynamic (BytesNT m) = False"
| "any_dynamic [] = False"
| "any_dynamic (t # ts) = (is_dynamic t \<or> any_dynamic ts)"

text \<open>One 32-byte word, big-endian; a negative number in two's complement.\<close>

definition word32 :: "int \<Rightarrow> bytes" where
  "word32 v = map (\<lambda>k. of_int (v div 256 ^ (31 - k))) [0..<32]"

definition pad_right32 :: "bytes \<Rightarrow> bytes" where
  "pad_right32 bs = bs @ replicate ((32 - length bs mod 32) mod 32) 0"

definition valid_bits :: "nat \<Rightarrow> bool" where
  "valid_bits m = (8 \<le> m \<and> m \<le> 256 \<and> m mod 8 = 0)"

text \<open>The type tags the library accepts.\<close>

fun valid_type :: "abi_type \<Rightarrow> bool" and valid_types :: "abi_type list \<Rightarrow> bool" where
  "valid_type (UintT m) = valid_bits m"
| "valid_type (IntT m) = valid_bits m"
| "valid_type BoolT = True"
| "valid_type (BytesNT m) = (1 \<le> m \<and> m \<le> 32)"
| "valid_type BytesT = True"
| "valid_type StringT = True"
| "valid_type (ArrayT t) = valid_type t"
| "valid_type (TupleT ts) = (ts \<noteq> [] \<and> valid_types ts)"
| "valid_types [] = True"
| "valid_types (t # ts) = (valid_type t \<and> valid_types ts)"

text \<open>
  The members of a tuple, each encoded and marked dynamic or not, are laid out as heads
  followed by tails: a static member is its own head; a dynamic member's head is the
  offset of its tail from the start of the tuple.
\<close>

definition head_length :: "(bool \<times> bytes) list \<Rightarrow> nat" where
  "head_length es = sum_list (map (\<lambda>(d, b). if d then 32 else length b) es)"

fun heads :: "nat \<Rightarrow> (bool \<times> bytes) list \<Rightarrow> bytes" where
  "heads offset [] = []"
| "heads offset ((d, b) # es) =
     (if d then word32 (int offset) @ heads (offset + length b) es else b @ heads offset es)"

fun tails :: "(bool \<times> bytes) list \<Rightarrow> bytes" where
  "tails [] = []"
| "tails ((d, b) # es) = (if d then b @ tails es else tails es)"

definition head_tail :: "(bool \<times> bytes) list \<Rightarrow> bytes" where
  "head_tail es = heads (head_length es) es @ tails es"

function enc :: "abi_type \<Rightarrow> abi_value \<Rightarrow> error + bytes"
  and enc_seq :: "abi_type list \<Rightarrow> abi_value list \<Rightarrow> error + (bool \<times> bytes) list"
  and enc_items :: "abi_type \<Rightarrow> abi_value list \<Rightarrow> error + (bool \<times> bytes) list"
where
  "enc (UintT m) (IntV v) =
     (if 0 \<le> v \<and> v < 2 ^ m then Inr (word32 v) else Inl EncodingError)"
| "enc (IntT m) (IntV v) =
     (if - (2 ^ (m - 1)) \<le> v \<and> v < 2 ^ (m - 1) then Inr (word32 v)
      else Inl EncodingError)"
| "enc BoolT (BoolV b) = Inr (word32 (if b then 1 else 0))"
| "enc (BytesNT m) (BytesV bs) =
     (if length bs \<le> m then Inr (bs @ replicate (32 - length bs) 0) else Inl EncodingError)"
| "enc BytesT (BytesV bs) = Inr (word32 (int (length bs)) @ pad_right32 bs)"
| "enc StringT (StrV s) =
     Inr (word32 (int (length (encode_utf8 s))) @ pad_right32 (encode_utf8 s))"
| "enc (ArrayT t) (SeqV vs) =
     (case enc_items t vs of
        Inl e \<Rightarrow> Inl e
      | Inr es \<Rightarrow> Inr (word32 (int (length vs)) @ head_tail es))"
| "enc (TupleT ts) (SeqV vs) =
     (case enc_seq ts vs of Inl e \<Rightarrow> Inl e | Inr es \<Rightarrow> Inr (head_tail es))"
| "enc (UintT m) (BoolV b) = Inl EncodingError"
| "enc (UintT m) (BytesV bs) = Inl EncodingError"
| "enc (UintT m) (StrV s) = Inl EncodingError"
| "enc (UintT m) (SeqV vs) = Inl EncodingError"
| "enc (IntT m) (BoolV b) = Inl EncodingError"
| "enc (IntT m) (BytesV bs) = Inl EncodingError"
| "enc (IntT m) (StrV s) = Inl EncodingError"
| "enc (IntT m) (SeqV vs) = Inl EncodingError"
| "enc BoolT (IntV v) = Inl EncodingError"
| "enc BoolT (BytesV bs) = Inl EncodingError"
| "enc BoolT (StrV s) = Inl EncodingError"
| "enc BoolT (SeqV vs) = Inl EncodingError"
| "enc (BytesNT m) (IntV v) = Inl EncodingError"
| "enc (BytesNT m) (BoolV b) = Inl EncodingError"
| "enc (BytesNT m) (StrV s) = Inl EncodingError"
| "enc (BytesNT m) (SeqV vs) = Inl EncodingError"
| "enc BytesT (IntV v) = Inl EncodingError"
| "enc BytesT (BoolV b) = Inl EncodingError"
| "enc BytesT (StrV s) = Inl EncodingError"
| "enc BytesT (SeqV vs) = Inl EncodingError"
| "enc StringT (IntV v) = Inl EncodingError"
| "enc StringT (BoolV b) = Inl EncodingError"
| "enc StringT (BytesV bs) = Inl EncodingError"
| "enc StringT (SeqV vs) = Inl EncodingError"
| "enc (ArrayT t) (IntV v) = Inl EncodingError"
| "enc (ArrayT t) (BoolV b) = Inl EncodingError"
| "enc (ArrayT t) (BytesV bs) = Inl EncodingError"
| "enc (ArrayT t) (StrV s) = Inl EncodingError"
| "enc (TupleT ts) (IntV v) = Inl EncodingError"
| "enc (TupleT ts) (BoolV b) = Inl EncodingError"
| "enc (TupleT ts) (BytesV bs) = Inl EncodingError"
| "enc (TupleT ts) (StrV s) = Inl EncodingError"
| "enc_seq [] [] = Inr []"
| "enc_seq (t # ts) (v # vs) =
     (case enc t v of
        Inl e \<Rightarrow> Inl e
      | Inr b \<Rightarrow>
          (case enc_seq ts vs of Inl e \<Rightarrow> Inl e | Inr es \<Rightarrow> Inr ((is_dynamic t, b) # es)))"
| "enc_seq [] (v # vs) = Inl EncodingError"
| "enc_seq (t # ts) [] = Inl EncodingError"
| "enc_items t [] = Inr []"
| "enc_items t (v # vs) =
     (case enc t v of
        Inl e \<Rightarrow> Inl e
      | Inr b \<Rightarrow>
          (case enc_items t vs of Inl e \<Rightarrow> Inl e | Inr es \<Rightarrow> Inr ((is_dynamic t, b) # es)))"
  by pat_completeness auto
termination
  by (relation "measure (\<lambda>x. case x of
        Inl (t, v) \<Rightarrow> size v
      | Inr (Inl (ts, vs)) \<Rightarrow> size_list size vs
      | Inr (Inr (t, vs)) \<Rightarrow> size_list size vs)") auto

text \<open>
  \<^verbatim>\<open>encode(types, args)\<close>: every type tag is looked up, then the values are encoded as the
  members of one tuple. (The tuple of no members is possible here, and only here.)
\<close>

definition encode :: "abi_type list \<Rightarrow> abi_value list \<Rightarrow> error + bytes" where
  "encode types args =
    (if \<not> valid_types types then Inl ValueError
     else case enc_seq types args of Inl e \<Rightarrow> Inl e | Inr es \<Rightarrow> Inr (head_tail es))"

text \<open>
  \<^verbatim>\<open>def encode_input(name, types, args):
    function_signature = func_selector(name)
    return function_signature + encode(types, args)\<close>

  The imported \<^verbatim>\<open>encode\<close> is a parameter, \<open>lib_encode\<close>: the function is the same for
  whatever type tags and values the library takes. The script calls it with the model
  above.
\<close>

definition encode_input ::
  "('t list \<Rightarrow> 'v list \<Rightarrow> error + bytes) \<Rightarrow> string \<Rightarrow> 't list \<Rightarrow> 'v list \<Rightarrow> error + bytes" where
  "encode_input lib_encode name types args =
    (let function_signature = func_selector name
     in case lib_encode types args of
          Inl e \<Rightarrow> Inl e
        | Inr encoded \<Rightarrow> Inr (function_signature @ encoded))"

section \<open>The chain client\<close>

text \<open>
  The values the script hands to the chain-client library are Python literals: \<^verbatim>\<open>None\<close>,
  integers, strings, lists and dictionaries with string keys (in the order written).
\<close>

datatype py =
  PyNone | PyInt int | PyStr string | PyList "py list" | PyDict "(string \<times> py) list"

text \<open>\<^verbatim>\<open>d[key]\<close> on a dictionary; nothing on any other value.\<close>

fun py_get :: "py \<Rightarrow> string \<Rightarrow> py option" where
  "py_get (PyDict kvs) key = map_of kvs key"
| "py_get PyNone key = None"
| "py_get (PyInt n) key = None"
| "py_get (PyStr s) key = None"
| "py_get (PyList xs) key = None"

fun py_keys :: "py \<Rightarrow> string list" where
  "py_keys (PyDict kvs) = map fst kvs"
| "py_keys PyNone = []"
| "py_keys (PyInt n) = []"
| "py_keys (PyStr s) = []"
| "py_keys (PyList xs) = []"

text \<open>
  An entry of the dictionary passed to \<^verbatim>\<open>update_type_registry\<close>: another type's name, or a
  struct layout, the ordered list of field name and type name.
\<close>

datatype type_def = Alias string | Struct "(string \<times> string) list"

text \<open>
  The type registry of a runtime configuration maps a lower-cased type name to a decoder
  class: a class of the library's own, given by its name, or the class made for a struct
  entry, with the name and the layout it was made from.
\<close>

datatype decoder = Class string | Struct_class string "(string \<times> string) list"

type_synonym type_registry = "string \<rightharpoonup> decoder"

text \<open>
  \<^verbatim>\<open>get_decoder_class(type_string)\<close> for a plain type name, as the names in the script's
  dictionary are: the class the registry holds under the lower-cased name, if any. (The
  library treats the empty name and the compound forms, vectors, tuples and arrays, on
  their own; none occurs here.)
\<close>

definition get_decoder_class :: "type_registry \<Rightarrow> string \<Rightarrow> decoder option" where
  "get_decoder_class reg type_string = reg (lower type_string)"

text \<open>
  \<^verbatim>\<open>update_type_registry_types\<close> goes through the dictionary in its order. A struct entry
  makes a new class. A name is looked up at once, in the registry as it is at that moment,
  and the class found, or \<^verbatim>\<open>None\<close>, is stored under the entry's lower-cased name.
\<close>

fun update_type_registry_types ::
  "type_registry \<Rightarrow> (string \<times> type_def) list \<Rightarrow> type_registry" where
  "update_type_registry_types reg [] = reg"
| "update_type_registry_types reg ((type_string, decoder_class_data) # types) =
     update_type_registry_types
       (reg(lower type_string :=
          (case decoder_class_data of
             Struct type_mapping \<Rightarrow> Some (Struct_class type_string type_mapping)
           | Alias name \<Rightarrow> get_decoder_class reg name)))
       types"

datatype keypair_type = ED25519 | SR25519 | ECDSA

record keypair =
  public_key :: bytes
  private_key :: bytes
  crypto_type :: keypair_type

text \<open>
  The interface object: what the library keeps (connection, runtime, metadata) is the
  opaque \<open>handle\<close>; the type registry of its runtime configuration is the part the script
  writes.
\<close>

record 'h substrate =
  handle :: 'h
  type_registry :: type_registry

text \<open>
  The chain-client library and the node behind it are external. Their operations are
  parameters: each returns a result or the exception it raises.
\<close>

record ('h, 'm, 'c) node =
  connect :: "string \<Rightarrow> bool \<Rightarrow> error + 'h substrate"
  init_runtime :: "'h substrate \<Rightarrow> error + 'h substrate"
  create_from_private_key :: "string \<Rightarrow> keypair_type \<Rightarrow> error + keypair"
  get_metadata :: "'h substrate \<Rightarrow> error + 'm"
  create_scale_object :: "'h substrate \<Rightarrow> string \<Rightarrow> 'm \<Rightarrow> error + 'c"
  scale_encode :: "'c \<Rightarrow> py \<Rightarrow> error + bytes"

text \<open>
  The operations of the library a run performs, in order. Signing and submitting an
  extrinsic are operations of the library too; the script names them only in comments.
\<close>

datatype op =
  Connect string bool
| Init_runtime
| Update_type_registry "(string \<times> type_def) list"
| Create_from_private_key string keypair_type
| Get_metadata
| Create_scale_object string
| Encode py
| Print string
| Create_signed_extrinsic
| Submit_extrinsic

section \<open>Initialising the interface\<close>

text \<open>The \<^verbatim>\<open>"types"\<close> dictionary passed to \<^verbatim>\<open>update_type_registry\<close>.\<close>

definition type_overrides :: "(string \<times> type_def) list" where
  "type_overrides =
    [(''Address'', Alias ''AccountId''),
     (''LookupSource'', Alias ''AccountId''),
     (''Account'', Struct [(''nonce'', ''U256''), (''balance'', ''U256'')]),
     (''AccountId'', Alias ''H160''),
     (''Transaction'', Struct
        [(''nonce'', ''U256''),
         (''gas_price'', ''U256''),
         (''gas_limit'', ''U256''),
         (''action'', ''EthTransactionAction''),
         (''value'', ''U256''),
         (''input'', ''Bytes''),
         (''signature'', ''EthTransactionSignature'')]),
     (''Signature'', Struct [(''v'', ''u64''), (''r'', ''H256''), (''s'', ''H256'')])]"

text \<open>
  \<^verbatim>\<open>update_type_registry\<close> on the runtime configuration of an interface. The dictionary the
  script passes has the one key \<^verbatim>\<open>"types"\<close>, so the call is \<^verbatim>\<open>update_type_registry_types\<close> on
  its entries. (It also sets the runtime id and the versioning, from keys that are absent
  here; they are not part of the model.)
\<close>

definition update_type_registry ::
  "(string \<times> type_def) list \<Rightarrow> 'h substrate \<Rightarrow> 'h substrate" where
  "update_type_registry types substrate =
    substrate\<lparr>type_registry := update_type_registry_types (type_registry substrate) types\<rparr>"

text \<open>
  \<^verbatim>\<open>def init_interface():
    substrate = SubstrateInterface(url="ws://127.0.0.1:9944", use_remote_preset=True)
    substrate.init_runtime()
    substrate.runtime_config.update_type_registry({"types": {...}})
    return substrate\<close>

  The function takes the operations performed so far and returns them extended, with
  the interface or the exception.
\<close>

definition init_interface ::
  "('h, 'm, 'c) node \<Rightarrow> op list \<Rightarrow> (error + 'h substrate) \<times> op list" where
  "init_interface nd ops =
    (let ops1 = ops @ [Connect ''ws://127.0.0.1:9944'' True]
     in case connect nd ''ws://127.0.0.1:9944'' True of
          Inl e \<Rightarrow> (Inl e, ops1)
        | Inr substrate \<Rightarrow>
            let ops2 = ops1 @ [Init_runtime]
            in case init_runtime nd substrate of
                 Inl e \<Rightarrow> (Inl e, ops2)
               | Inr substrate' \<Rightarrow>
                   (Inr (update_type_registry type_overrides substrate'),
                    ops2 @ [Update_type_registry type_overrides]))"

section \<open>Building the contract call\<close>

text \<open>
  The state a call of \<^verbatim>\<open>call_contract\<close> runs in: the two objects it is given by
  reference, the lines printed and the operations performed.
\<close>

record 'h state =
  s_interface :: "'h substrate"
  s_keypair :: keypair
  stdout :: "string list"
  oplog :: "op list"

text \<open>The dictionary literal passed to \<^verbatim>\<open>call.encode\<close>.\<close>

definition call_descriptor :: "keypair \<Rightarrow> string \<Rightarrow> bytes \<Rightarrow> py" where
  "call_descriptor kp contract_addr input =
    PyDict
      [(''call_module'', PyStr ''EVM''),
       (''call_function'', PyStr ''call''),
       (''call_args'', PyDict
          [(''source'', PyStr (''0x'' @ bytes_hex (public_key kp))),
           (''target'', PyStr contract_addr),
           (''input'', PyStr (bytes_hex input)),
           (''value'', PyInt 0),
           (''gas_limit'', PyInt 10000000),
           (''max_fee_per_gas'', PyInt 10000000),
           (''max_priority_fee_per_gas'', PyNone),
           (''nonce'', PyNone),
           (''access_list'', PyList [])])]"

text \<open>\<^verbatim>\<open>print(cc)\<close> writes the encoded bytes as \<^verbatim>\<open>0x\<close> and their hex digits.\<close>

definition scale_bytes_str :: "bytes \<Rightarrow> string" where
  "scale_bytes_str cc = ''0x'' @ bytes_hex cc"

text \<open>
  \<^verbatim>\<open>def call_contract(interface, keypair, contract_addr, input):
    meta = interface.get_metadata()
    call = interface.runtime_config.create_scale_object("Call", metadata=meta)
    cc = call.encode({...})
    print(cc)\<close>

  The result is the exception raised, if any, and the state the call leaves.
\<close>

definition call_contract ::
  "('h, 'm, 'c) node \<Rightarrow> 'h state \<Rightarrow> string \<Rightarrow> bytes \<Rightarrow> error option \<times> 'h state" where
  "call_contract nd s contract_addr input =
    (let s1 = s\<lparr>oplog := oplog s @ [Get_metadata]\<rparr>
     in case get_metadata nd (s_interface s) of
          Inl e \<Rightarrow> (Some e, s1)
        | Inr meta \<Rightarrow>
            let s2 = s1\<lparr>oplog := oplog s1 @ [Create_scale_object ''Call'']\<rparr>
            in case create_scale_object nd (s_interface s) ''Call'' meta of
                 Inl e \<Rightarrow> (Some e, s2)
               | Inr call \<Rightarrow>
                   let descriptor = call_descriptor (s_keypair s) contract_addr input;
                       s3 = s2\<lparr>oplog := oplog s2 @ [Encode descriptor]\<rparr>
                   in case scale_encode nd call descriptor of
                        Inl e \<Rightarrow> (Some e, s3)
                      | Inr cc \<Rightarrow>
                          (None, s3\<lparr>stdout := stdout s3 @ [scale_bytes_str cc],
                                    oplog := oplog s3 @ [Print (scale_bytes_str cc)]\<rparr>))"

section \<open>The script\<close>

text \<open>
  \<^verbatim>\<open>CONTRACT_ADDRESS = num_to_address(2050)
  interface = init_interface()
  alith_keypair = Keypair.create_from_private_key("0x5fb9...", crypto_type=KeypairType.ECDSA)
  input = encode_input("name()", [], [])
  call_contract(interface, alith_keypair, CONTRACT_ADDRESS, input)\<close>

  A run ends at the first exception. Its outcome is the exception, if any, the lines
  printed and the operations performed.
\<close>

definition alith_private_key :: string where
  "alith_private_key = ''0x5fb92d6e98884f76de468fa3f6278f8807c48bebc13595d45af5bdc4da702133''"

record outcome =
  raised :: "error option"
  printed :: "string list"
  performed :: "op list"

definition script :: "('h, 'm, 'c) node \<Rightarrow> outcome" where
  "script nd =
    (case CONTRACT_ADDRESS of
       Inl e \<Rightarrow> \<lparr>raised = Some e, printed = [], performed = []\<rparr>
     | Inr contract_address \<Rightarrow>
    (case init_interface nd [] of
       (Inl e, ops) \<Rightarrow> \<lparr>raised = Some e, printed = [], performed = ops\<rparr>
     | (Inr interface, ops) \<Rightarrow>
    (let ops1 = ops @ [Create_from_private_key alith_private_key ECDSA]
     in case create_from_private_key nd alith_private_key ECDSA of
       Inl e \<Rightarrow> \<lparr>raised = Some e, printed = [], performed = ops1\<rparr>
     | Inr alith_keypair \<Rightarrow>
    (case encode_input encode ''name()'' [] [] of
       Inl e \<Rightarrow> \<lparr>raised = Some e, printed = [], performed = ops1\<rparr>
     | Inr input \<Rightarrow>
    (case call_contract nd
            \<lparr>s_interface = interface, s_keypair = alith_keypair, stdout = [], oplog = ops1\<rparr>
            contract_address input of
       (r, s) \<Rightarrow> \<lparr>raised = r, printed = stdout s, performed = oplog s\<rparr>)))))"

section \<open>A mock node\<close>

text \<open>
  A node for concrete runs: the connection and the runtime succeed, with a registry as
  the library's core preset leaves it (its own classes under their lower-cased names,
  and \<^verbatim>\<open>AccountId\<close> naming the 32-byte \<^verbatim>\<open>GenericAccountId\<close>); the key pair is the well-known
  test account of the private key; the encoder writes the two index bytes of a call and
  the length of its argument dictionary.
\<close>

definition core_registry :: type_registry where
  "core_registry =
    map_of
      [(''h160'', Class ''H160''), (''h256'', Class ''H256''), (''u256'', Class ''U256''),
       (''genericaccountid'', Class ''GenericAccountId''),
       (''accountid'', Class ''GenericAccountId'')]"

definition mock_keypair :: keypair where
  "mock_keypair =
    \<lparr>public_key =
       [0xf2, 0x4f, 0xf3, 0xa9, 0xcf, 0x04, 0xc7, 0x1d, 0xbc, 0x94,
        0xd0, 0xb5, 0x66, 0xf7, 0xa2, 0x7b, 0x94, 0x56, 0x6c, 0xac],
     private_key =
       [0x5f, 0xb9, 0x2d, 0x6e, 0x98, 0x88, 0x4f, 0x76, 0xde, 0x46, 0x8f, 0xa3, 0xf6, 0x27,
        0x8f, 0x88, 0x07, 0xc4, 0x8b, 0xeb, 0xc1, 0x35, 0x95, 0xd4, 0x5a, 0xf5, 0xbd, 0xc4,
        0xda, 0x70, 0x21, 0x33],
     crypto_type = ECDSA\<rparr>"

definition mock_encode :: "nat \<Rightarrow> py \<Rightarrow> error + bytes" where
  "mock_encode call value =
    (case py_get value ''call_args'' of
       None \<Rightarrow> Inl (Raised ''call_args'')
     | Some args \<Rightarrow> Inr [of_nat call, 0x01, of_nat (length (py_keys args))])"

definition mock_node :: "(nat, nat, nat) node" where
  "mock_node =
    \<lparr>connect = (\<lambda>url preset. Inr \<lparr>handle = 0, type_registry = core_registry\<rparr>),
     init_runtime = (\<lambda>substrate. Inr (substrate\<lparr>handle := 1\<rparr>)),
     create_from_private_key = (\<lambda>key t. Inr mock_keypair),
     get_metadata = (\<lambda>substrate. Inr 14),
     create_scale_object = (\<lambda>substrate name meta. Inr 51),
     scale_encode = mock_encode\<rparr>"

definition mock_state :: "nat state" where
  "mock_state =
    \<lparr>s_interface = \<lparr>handle = 1, type_registry = core_registry\<rparr>,
     s_keypair = mock_keypair, stdout = [], oplog = []\<rparr>"

definition mock_state_b :: "nat state" where
  "mock_state_b =
    \<lparr>s_interface = \<lparr>handle = 1, type_registry = core_registry\<rparr>,
     s_keypair = mock_keypair\<lparr>private_key := [], crypto_type := SR25519\<rparr>,
     stdout = [''earlier''], oplog = [Init_runtime]\<rparr>"

section \<open>Notions used in the proofs\<close>

text \<open>The characters \<^verbatim>\<open>hex\<close> writes, and the address the script computes.\<close>

definition is_lower_hex :: "char \<Rightarrow> bool" where
  "is_lower_hex c = (c \<in> set ''0123456789abcdef'')"

definition address_2050 :: string where
  "address_2050 = ''0x0000000000000000000000000000000000000802''"

text \<open>The three stages of \<open>theta\<close>: column parities, their combination, and the update.\<close>

definition theta_c :: "lane list \<Rightarrow> lane list" where
  "theta_c a =
    map (\<lambda>x. a ! x XOR a ! (x + 5) XOR a ! (x + 10) XOR a ! (x + 15) XOR a ! (x + 20)) [0..<5]"

definition theta_d :: "lane list \<Rightarrow> lane list" where
  "theta_d c = map (\<lambda>x. c ! ((x + 4) mod 5) XOR rotl64 1 (c ! ((x + 1) mod 5))) [0..<5]"

definition theta_x :: "lane list \<Rightarrow> lane list \<Rightarrow> lane list" where
  "theta_x a d = map (\<lambda>i. a ! i XOR d ! (i mod 5)) [0..<25]"

text \<open>An argument of a call descriptor.\<close>

definition call_arg :: "py \<Rightarrow> string \<Rightarrow> py option" where
  "call_arg descriptor key =
    (case py_get descriptor ''call_args'' of None \<Rightarrow> None | Some args \<Rightarrow> py_get args key)"

section \<open>The hash has 32 bytes\<close>

lemma length_keccak_round: "length (keccak_round a rc) = 25"
  by (simp add: keccak_round_def iota_def chi_def)

lemma length_foldl_keccak_round:
  "length (foldl keccak_round a rcs) = (if rcs = [] then length a else 25)"
  by (induction rcs arbitrary: a) (simp_all add: length_keccak_round)

lemma length_keccak_f: "length (keccak_f a) = 25"
proof -
  have "round_constants \<noteq> []"
    by (simp add: round_constants_def)
  then show ?thesis
    by (simp add: keccak_f_def length_foldl_keccak_round)
qed

lemma length_absorb: "length a = 25 \<Longrightarrow> length (absorb a m) = 25"
proof (induction a m rule: absorb.induct)
  case (1 a m)
  show ?case
  proof (cases "length m < 136")
    case True
    with "1.prems" show ?thesis
      by (subst absorb.simps) simp
  next
    case False
    have "length (absorb_block a (take 136 m)) = 25"
      by (simp add: absorb_block_def length_keccak_f)
    with False "1.IH" show ?thesis
      by (subst absorb.simps) simp
  qed
qed

lemma length_concat_lanes: "length (concat (map bytes_of_lane a)) = 8 * length a"
  by (induction a) (simp_all add: bytes_of_lane_def)

lemma length_keccak_256: "length (keccak_256 m) = 32"
  by (simp add: keccak_256_def length_concat_lanes length_absorb)

lemma length_keccak: "length (keccak text) = 32"
  by (simp add: keccak_def length_keccak_256)

lemma length_func_selector: "length (func_selector text) = 4"
  by (simp add: func_selector_def length_keccak)

section \<open>One round on explicit lanes\<close>

lemma upt_25:
  "[0..<25] =
     [0, 1, 2, 3, 4, 5, 6, 7, 8, 9, 10, 11, 12, 13, 14, 15, 16, 17, 18, 19, 20, 21, 22, 23, 24]"
  by (simp add: upt_conv_Cons)

lemma upt_5: "[0..<5] = [0, 1, 2, 3, 4]"
  by (simp add: upt_conv_Cons)

lemma theta_staged: "theta a = theta_x a (theta_d (theta_c a))"
  by (simp add: theta_def theta_x_def theta_d_def theta_c_def Let_def)

lemma theta_c_lanes:
  "theta_c [a0, a1, a2, a3, a4, a5, a6, a7, a8, a9, a10, a11, a12, a13, a14, a15, a16, a17, a18, a19,
   a20, a21, a22, a23, a24] =
     [a0 XOR a5 XOR a10 XOR a15 XOR a20, a1 XOR a6 XOR a11 XOR a16 XOR a21,
      a2 XOR a7 XOR a12 XOR a17 XOR a22, a3 XOR a8 XOR a13 XOR a18 XOR a23,
      a4 XOR a9 XOR a14 XOR a19 XOR a24]"
  by (simp add: theta_c_def upt_5)

lemma theta_d_lanes:
  "theta_d [c0, c1, c2, c3, c4] =
     [c4 XOR rotl64 1 c1, c0 XOR rotl64 1 c2, c1 XOR rotl64 1 c3, c2 XOR rotl64 1 c4,
      c3 XOR rotl64 1 c0]"
  by (simp add: theta_d_def upt_5)

lemma theta_x_lanes:
  "theta_x [a0, a1, a2, a3, a4, a5, a6, a7, a8, a9, a10, a11, a12, a13, a14, a15, a16, a17, a18, a19,
   a20, a21, a22, a23, a24] [d0, d1, d2, d3, d4] =
     [a0 XOR d0, a1 XOR d1, a2 XOR d2, a3 XOR d3, a4 XOR d4, a5 XOR d0, a6 XOR d1, a7 XOR d2,
      a8 XOR d3, a9 XOR d4, a10 XOR d0, a11 XOR d1, a12 XOR d2, a13 XOR d3, a14 XOR d4,
      a15 XOR d0, a16 XOR d1, a17 XOR d2, a18 XOR d3, a19 XOR d4, a20 XOR d0, a21 XOR d1,
      a22 XOR d2, a23 XOR d3, a24 XOR d4]"
  by (simp add: theta_x_def upt_25)

lemma rho_pi_lanes:
  "rho_pi [a0, a1, a2, a3, a4, a5, a6, a7, a8, a9, a10, a11, a12, a13, a14, a15, a16, a17, a18, a19,
   a20, a21, a22, a23, a24] =
     [rotl64 0 a0, rotl64 44 a6, rotl64 43 a12, rotl64 21 a18, rotl64 14 a24, rotl64 28 a3,
      rotl64 20 a9, rotl64 3 a10, rotl64 45 a16, rotl64 61 a22, rotl64 1 a1, rotl64 6 a7,
      rotl64 25 a13, rotl64 8 a19, rotl64 18 a20, rotl64 27 a4, rotl64 36 a5, rotl64 10 a11,
      rotl64 15 a17, rotl64 56 a23, rotl64 62 a2, rotl64 55 a8, rotl64 39 a14, rotl64 41 a15,
      rotl64 2 a21]"
  by (simp add: rho_pi_def rotation_offsets_def Let_def upt_25)

lemma chi_lanes:
  "chi [a0, a1, a2, a3, a4, a5, a6, a7, a8, a9, a10, a11, a12, a13, a14, a15, a16, a17, a18, a19,
   a20, a21, a22, a23, a24] =
     [a0 XOR (NOT a1 AND a2), a1 XOR (NOT a2 AND a3), a2 XOR (NOT a3 AND a4),
      a3 XOR (NOT a4 AND a0), a4 XOR (NOT a0 AND a1), a5 XOR (NOT a6 AND a7),
      a6 XOR (NOT a7 AND a8), a7 XOR (NOT a8 AND a9), a8 XOR (NOT a9 AND a5),
      a9 XOR (NOT a5 AND a6), a10 XOR (NOT a11 AND a12), a11 XOR (NOT a12 AND a13),
      a12 XOR (NOT a13 AND a14), a13 XOR (NOT a14 AND a10), a14 XOR (NOT a10 AND a11),
      a15 XOR (NOT a16 AND a17), a16 XOR (NOT a17 AND a18), a17 XOR (NOT a18 AND a19),
      a18 XOR (NOT a19 AND a15), a19 XOR (NOT a15 AND a16), a20 XOR (NOT a21 AND a22),
      a21 XOR (NOT a22 AND a23), a22 XOR (NOT a23 AND a24), a23 XOR (NOT a24 AND a20),
      a24 XOR (NOT a20 AND a21)]"
  by (simp add: chi_def Let_def upt_25)

lemma iota_lanes:
  "iota rc [a0, a1, a2, a3, a4, a5, a6, a7, a8, a9, a10, a11, a12, a13, a14, a15, a16, a17, a18, a19,
   a20, a21, a22, a23, a24] =
     [a0 XOR rc, a1, a2, a3, a4, a5, a6, a7, a8, a9, a10, a11, a12, a13, a14, a15, a16, a17,
      a18, a19, a20, a21, a22, a23, a24]"
  by (simp add: iota_def)

lemmas round_lanes =
  keccak_round_def theta_staged theta_c_lanes theta_d_lanes theta_x_lanes rho_pi_lanes chi_lanes
  iota_lanes rotl64_def

section \<open>A known answer: the hash of \<^verbatim>\<open>name()\<close>\<close>

text \<open>
  The 24 rounds on the one block of \<^verbatim>\<open>name()\<close>, each evaluated by rewriting; the state after
  \<open>k\<close> rounds is the left fold over the first \<open>k\<close> round constants.
\<close>

lemma name_rounds_0:
  "foldl keccak_round
     [0x00012928656D616E, 0x0000000000000000, 0x0000000000000000, 0x0000000000000000,
      0x0000000000000000, 0x0000000000000000, 0x0000000000000000, 0x0000000000000000,
      0x0000000000000000, 0x0000000000000000, 0x0000000000000000, 0x0000000000000000,
      0x0000000000000000, 0x0000000000000000, 0x0000000000000000, 0x0000000000000000,
      0x8000000000000000, 0x0000000000000000, 0x0000000000000000, 0x0000000000000000,
      0x0000000000000000, 0x0000000000000000, 0x0000000000000000, 0x0000000000000000,
      0x0000000000000000]
     (take 0 round_constants) =
     [0x00012928656D616E, 0x0000000000000000, 0x0000000000000000, 0x0000000000000000,
      0x0000000000000000, 0x0000000000000000, 0x0000000000000000, 0x0000000000000000,
      0x0000000000000000, 0x0000000000000000, 0x0000000000000000, 0x0000000000000000,
      0x0000000000000000, 0x0000000000000000, 0x0000000000000000, 0x0000000000000000,
      0x8000000000000000, 0x0000000000000000, 0x0000000000000000, 0x0000000000000000,
      0x0000000000000000, 0x0000000000000000, 0x0000000000000000, 0x0000000000000000,
      0x0000000000000000]"
  by simp

lemma name_rounds_1:
  "foldl keccak_round
     [0x00012928656D616E, 0x0000000000000000, 0x0000000000000000, 0x0000000000000000,
      0x0000000000000000, 0x0000000000000000, 0x0000000000000000, 0x0000000000000000,
      0x0000000000000000, 0x0000000000000000, 0x0000000000000000, 0x0000000000000000,
      0x0000000000000000, 0x0000000000000000, 0x0000000000000000, 0x0000000000000000,
      0x8000000000000000, 0x0000000000000000, 0x0000000000000000, 0x0000000000000000,
      0x0000000000000000, 0x0000000000000000, 0x0000000000000000, 0x0000000000000000,
      0x0000000000000000]
     (take 1 round_constants) =
     [0x00012D28656D616E, 0xD616E00012928656, 0x949436B6B0B70000, 0x000109084548616F,
      0x4282F2B6A2258610, 0x0000000000000008, 0x89217DAC08E50C80, 0x1000000000000008,
      0xAC2DD00025250CAD, 0x350CADAC2DC00025, 0x00025250CADAC2DC, 0x025250CADAC2DC20,
      0x0000000000040000, 0x0250029A10181EDC, 0x0000000000040020, 0x82F277935585AA92,
      0x0000001000004000, 0x04A4A195B585B800, 0x8656D616E0005292, 0x0000000000000000,
      0x4D616E0001292865, 0x0000000000000000, 0x6D65CAA1949CADDD, 0x2000020000000000,
      0x0004A4A195B585B8]"
proof -
  have next_round: "take 1 round_constants = take 0 round_constants @ [0x0000000000000001]"
    by (simp add: round_constants_def)
  show ?thesis
    unfolding next_round foldl_append name_rounds_0 by (simp add: round_lanes)
qed

lemma name_rounds_2:
  "foldl keccak_round
     [0x00012928656D616E, 0x0000000000000000, 0x0000000000000000, 0x0000000000000000,
      0x0000000000000000, 0x0000000000000000, 0x0000000000000000, 0x0000000000000000,
      0x0000000000000000, 0x0000000000000000, 0x0000000000000000, 0x0000000000000000,
      0x0000000000000000, 0x0000000000000000, 0x0000000000000000, 0x0000000000000000,
      0x8000000000000000, 0x0000000000000000, 0x0000000000000000, 0x0000000000000000,
      0x0000000000000000, 0x0000000000000000, 0x0000000000000000, 0x0000000000000000,
      0x0000000000000000]
     (take 2 round_constants) =
     [0x97C95E56FAC01DAD, 0xA426E9C1BB242DC7, 0xDB1B6EDC36989A02, 0xD808E04A45E088E3,
      0xB99A9D7CB9AFC5C3, 0xCE0DA73E8C215EB7, 0x7EB0FAB363B2BB67, 0x6E1B992A0B2740E8,
      0x6358E6835B9BDB30, 0x55FA9B1BFD925F46, 0x17525BDD35BB1921, 0x4EF4DC9E56B66F10,
      0xE8721C00BE902150, 0x88C240E7C64A0EF6, 0x757EEC7C1AD66016, 0x2E37272A1DE54993,
      0xAA23CE7994B231EB, 0xA436D00AB75B1A4D, 0x99F41DED7CFF654F, 0x1EE2803C34B7167A,
      0x94C9F070D11B3D4B, 0x455F12A9184C9183, 0x2353CAEB847109B3, 0xD509AE9F722F9FFE,
      0x55FD71364B7C291C]"
proof -
  have next_round: "take 2 round_constants = take 1 round_constants @ [0x0000000000008082]"
    by (simp add: round_constants_def)
  show ?thesis
    unfolding next_round foldl_append name_rounds_1 by (simp add: round_lanes)
qed

lemma name_rounds_3:
  "foldl keccak_round
     [0x00012928656D616E, 0x0000000000000000, 0x0000000000000000, 0x0000000000000000,
      0x0000000000000000, 0x0000000000000000, 0x0000000000000000, 0x0000000000000000,
      0x0000000000000000, 0x0000000000000000, 0x0000000000000000, 0x0000000000000000,
      0x0000000000000000, 0x0000000000000000, 0x0000000000000000, 0x0000000000000000,
      0x8000000000000000, 0x0000000000000000, 0x0000000000000000, 0x0000000000000000,
      0x0000000000000000, 0x0000000000000000, 0x0000000000000000, 0x0000000000000000,
      0x0000000000000000]
     (take 3 round_constants) =
     [0x1A59633F5774EB6E, 0xC65007EF36C7ECF2, 0xE95123F8BFEF280C, 0x7B01D46A5610F753,
      0xDFEDF0755450E091, 0x79027AB442428956, 0x79034BF65358201A, 0xDF797781CD73FBA9,
      0x32D835DC81377F74, 0x74534767D471A7E0, 0xC8A2E810187F8E5E, 0xAF0E88CC029586BA,
      0x84095CDA93FF6D5D, 0x951E97FF9FE90D81, 0x027FD5F42ABAC3F3, 0xBFAD413CC535641F,
      0x9B100B2DA313B5BB, 0x8C056AACCEC5833E, 0x3EC7ADB7072F94F8, 0x51F9926B8888EA9C,
      0x27F7A5B746C8731D, 0x0FBC2A94CF506FCE, 0xBBCD3352AB70466D, 0x71EB0C443454C66A,
      0x5C6A17A746993364]"
proof -
  have next_round: "take 3 round_constants = take 2 round_constants @ [0x800000000000808A]"
    by (simp add: round_constants_def)
  show ?thesis
    unfolding next_round foldl_append name_rounds_2 by (simp add: round_lanes)
qed

lemma name_rounds_4:
  "foldl keccak_round
     [0x00012928656D616E, 0x0000000000000000, 0x0000000000000000, 0x0000000000000000,
      0x0000000000000000, 0x0000000000000000, 0x0000000000000000, 0x0000000000000000,
      0x0000000000000000, 0x0000000000000000, 0x0000000000000000, 0x0000000000000000,
      0x0000000000000000, 0x0000000000000000, 0x0000000000000000, 0x0000000000000000,
      0x8000000000000000, 0x0000000000000000, 0x0000000000000000, 0x0000000000000000,
      0x0000000000000000, 0x0000000000000000, 0x0000000000000000, 0x0000000000000000,
      0x0000000000000000]
     (take 4 round_constants) =
     [0xDFF047E5F55F1461, 0x1783D095AB8DBD44, 0x429E99283896196F, 0x52A91B669597E52C,
      0xFA8D98034E266335, 0x31A92663C95344A6, 0xF8EA3AB445484B6B, 0x289244121B5D905F,
      0x6791142CA6945433, 0xED5F67B16A62444D, 0x14637118C93F4583, 0x0784C62A143A397B,
      0xCCB454999690AD0B, 0x882CD06717D6A024, 0x2298D5002CE21146, 0x89D4FE095D500273,
      0x05BD475C83A565E3, 0xD8593896376BA65B, 0xD15A597BFEBA17F9, 0x3097A7A74F5CE207,
      0xB09DDFD211E340B0, 0x5D7D9A517A2FF297, 0xB475272268343536, 0x58BBDE24280BDD6E,
      0xDA5474F84B25B5BB]"
proof -
  have next_round: "take 4 round_constants = take 3 round_constants @ [0x8000000080008000]"
    by (simp add: round_constants_def)
  show ?thesis
    unfolding next_round foldl_append name_rounds_3 by (simp add: round_lanes)
qed

lemma name_rounds_5:
  "foldl keccak_round
     [0x00012928656D616E, 0x0000000000000000, 0x0000000000000000, 0x0000000000000000,
      0x0000000000000000, 0x0000000000000000, 0x0000000000000000, 0x0000000000000000,
      0x0000000000000000, 0x0000000000000000, 0x0000000000000000, 0x0000000000000000,
      0x0000000000000000, 0x0000000000000000, 0x0000000000000000, 0x0000000000000000,
      0x8000000000000000, 0x0000000000000000, 0x0000000000000000, 0x0000000000000000,
      0x0000000000000000, 0x0000000000000000, 0x0000000000000000, 0x0000000000000000,
      0x0000000000000000]
     (take 5 round_constants) =
     [0x0031DC0467E85428, 0x83E43AEF6729EAAA, 0x2313CA3B98A9D399, 0xB6E3AC08FA7C5E05,
      0xC484707B7053381D, 0xBF639E9BE262E5EA, 0x569E9853EDE7A905, 0x19AD134E08E5A00D,
      0xB9D9BB7B29443967, 0x8D3A6CB83D740B4C, 0x833B1A7F4BA91EDF, 0xD5547A39285B697C,
      0x4588F8B8AAB34E56, 0x07AECE6BB097A442, 0x448C0B5A759AFC1F, 0x9F7E111ABA44F054,
      0x32FBBE51C72358A4, 0x7A681576854B7467, 0xFEE8E86FB695C4D9, 0x1D2C7AFBAC68B981,
      0x25E486F2F29FD543, 0x388C0B1CF8A29738, 0xE72AEE4817E7D286, 0x09E7027EAC8B41AF,
      0x3C9715E45EBB2CE4]"
proof -
  have next_round: "take 5 round_constants = take 4 round_constants @ [0x000000000000808B]"
    by (simp add: round_constants_def)
  show ?thesis
    unfolding next_round foldl_append name_rounds_4 by (simp add: round_lanes)
qed

lemma name_rounds_6:
  "foldl keccak_round
     [0x00012928656D616E, 0x0000000000000000, 0x0000000000000000, 0x0000000000000000,
      0x0000000000000000, 0x0000000000000000, 0x0000000000000000, 0x0000000000000000,
      0x0000000000000000, 0x0000000000000000, 0x0000000000000000, 0x0000000000000000,
      0x0000000000000000, 0x0000000000000000, 0x0000000000000000, 0x0000000000000000,
      0x8000000000000000, 0x0000000000000000, 0x0000000000000000, 0x0000000000000000,
      0x0000000000000000, 0x0000000000000000, 0x0000000000000000, 0x0000000000000000,
      0x0000000000000000]
     (take 6 round_constants) =
     [0x10235B94263FD098, 0xD354C3100E2B6263, 0xA533AD25B5BA5404, 0x6231365C758EB5DD,
      0x6F6B8AF697A9F098, 0xAC6E7F174FD85B6E, 0x1E9CB75DB0747446, 0xDA455BE798544615,
      0xF0BA2D19385F8A3C, 0x90483CF2DF15936C, 0x88E4900729E52DCF, 0x6041E7D1A47039DF,
      0xAC1839377869A4DB, 0x50BF63D848CF4A6C, 0xA7962E7993CA254C, 0x00209152F3E3C0F7,
      0xA50371FEF901D943, 0x68A3DBD91344C631, 0x8F566FCCFFE50502, 0xF8E5C58184901C6E,
      0x11C9106B45E6EE9E, 0x0B819ECCC1AEFF1F, 0x054F2ADB48C38441, 0x1347F37ECF67589E,
      0xE259884CB9FCACD4]"
proof -
  have next_round: "take 6 round_constants = take 5 round_constants @ [0x0000000080000001]"
    by (simp add: round_constants_def)
  show ?thesis
    unfolding next_round foldl_append name_rounds_5 by (simp add: round_lanes)
qed

lemma name_rounds_7:
  "foldl keccak_round
     [0x00012928656D616E, 0x0000000000000000, 0x0000000000000000, 0x0000000000000000,
      0x0000000000000000, 0x0000000000000000, 0x0000000000000000, 0x0000000000000000,
      0x0000000000000000, 0x0000000000000000, 0x0000000000000000, 0x0000000000000000,
      0x0000000000000000, 0x0000000000000000, 0x0000000000000000, 0x0000000000000000,
      0x8000000000000000, 0x0000000000000000, 0x0000000000000000, 0x0000000000000000,
      0x0000000000000000, 0x0000000000000000, 0x0000000000000000, 0x0000000000000000,
      0x0000000000000000]
     (take 7 round_constants) =
     [0x5A94BFEA452BAD5F, 0x6153366CBC6065D6, 0x8F6AF88284677C8E, 0x1F7FDD63B7B2B8BF,
      0x2084181EEFC9BD9E, 0xEEE63DC277AC0A38, 0xAA6070CA1DD9ECBB, 0x679CC71957F41D96,
      0xFF36D7BAF2B5A264, 0xA741B3EDE87F3F7B, 0x8A2526864C8A1F29, 0x0131C4AC78276659,
      0x2F00FE0588955DFC, 0x446AD15AC33EDF69, 0xB3455A801C44B708, 0x00E5DF7013BCB06D,
      0x6D2B4648818D3CAF, 0x16975B397966F8E0, 0xA5C4AD7F4C08CBDC, 0xEC23F6686C0C5DD2,
      0x2A162C74E70001C4, 0x932415DC21D65D49, 0x219AF6AD195096ED, 0xF2C3F6892E7BFFA1,
      0x0E764BF4AE5F4CE0]"
proof -
  have next_round: "take 7 round_constants = take 6 round_constants @ [0x8000000080008081]"
    by (simp add: round_constants_def)
  show ?thesis
    unfolding next_round foldl_append name_rounds_6 by (simp add: round_lanes)
qed

lemma name_rounds_8:
  "foldl keccak_round
     [0x00012928656D616E, 0x0000000000000000, 0x0000000000000000, 0x0000000000000000,
      0x0000000000000000, 0x0000000000000000, 0x0000000000000000, 0x0000000000000000,
      0x0000000000000000, 0x0000000000000000, 0x0000000000000000, 0x0000000000000000,
      0x0000000000000000, 0x0000000000000000, 0x0000000000000000, 0x0000000000000000,
      0x8000000000000000, 0x0000000000000000, 0x0000000000000000, 0x0000000000000000,
      0x0000000000000000, 0x0000000000000000, 0x0000000000000000, 0x0000000000000000,
      0x0000000000000000]
     (take 8 round_constants) =
     [0x4DDF5A316F0995E3, 0x9050F5E33FF35C31, 0xA1A09F6FCBDBE4CA, 0x7112CF7A155E928B,
      0x9935B21FEB4E3F16, 0x40F240BCB422C28B, 0xDCD0A479DF991FF3, 0xAB36CE5B310122C5,
      0xF397790BB91C2F20, 0x927A51BA56850F24, 0x20917324D741D3C5, 0x374CDB2CA991B7DB,
      0x1E90ADA8BC727608, 0x6FD90B9925BE53B2, 0x589BBCB1CAE2774B, 0xF5FB40FE26F7D779,
      0x9861103D025B613D, 0xBFA5D813CF09BE55, 0xC5766CE7E987A270, 0xFFAFA6025CAE29E0,
      0xF1610E594D4F5452, 0x90411AD975FC65DD, 0x26E2C437B4A451F2, 0x6B13AF08DF214673,
      0x91CA580B46AFE679]"
proof -
  have next_round: "take 8 round_constants = take 7 round_constants @ [0x8000000000008009]"
    by (simp add: round_constants_def)
  show ?thesis
    unfolding next_round foldl_append name_rounds_7 by (simp add: round_lanes)
qed

lemma name_rounds_9:
  "foldl keccak_round
     [0x00012928656D616E, 0x0000000000000000, 0x0000000000000000, 0x0000000000000000,
      0x0000000000000000, 0x0000000000000000, 0x0000000000000000, 0x0000000000000000,
      0x0000000000000000, 0x0000000000000000, 0x0000000000000000, 0x0000000000000000,
      0x0000000000000000, 0x0000000000000000, 0x0000000000000000, 0x0000000000000000,
      0x8000000000000000, 0x0000000000000000, 0x0000000000000000, 0x0000000000000000,
      0x0000000000000000, 0x0000000000000000, 0x0000000000000000, 0x0000000000000000,
      0x0000000000000000]
     (take 9 round_constants) =
     [0x5333DA805C177FBB, 0x12529ED2D4203C3D, 0xC6922AD80E562FC2, 0xC912287584067649,
      0xD24409E378FBE02B, 0x4AEC3D80ACF6C0D6, 0x322326A02B6011B6, 0x578E16EB768442B8,
      0x7E3F7DBA3EBA63A8, 0xEA7DD53D5D81A687, 0x526B7319C155BCAD, 0x623E88982A7D82BB,
      0x1284B66B0033FF52, 0x9AFC1D2E507BB727, 0x1785F3FCCF20AE34, 0x8018C39000526411,
      0x0938BCB920EE1556, 0xA56D7ADC260C2013, 0xF667C720A90E250D, 0x48BF090423946542,
      0xDB369CCC918C914C, 0x61460AB6C42FAE12, 0x0CBA0E247757255D, 0x9D70DE1F258E0E6F,
      0xAF93B0BCE4B0505A]"
proof -
  have next_round: "take 9 round_constants = take 8 round_constants @ [0x000000000000008A]"
    by (simp add: round_constants_def)
  show ?thesis
    unfolding next_round foldl_append name_rounds_8 by (simp add: round_lanes)
qed

lemma name_rounds_10:
  "foldl keccak_round
     [0x00012928656D616E, 0x0000000000000000, 0x0000000000000000, 0x0000000000000000,
      0x0000000000000000, 0x0000000000000000, 0x0000000000000000, 0x0000000000000000,
      0x0000000000000000, 0x0000000000000000, 0x0000000000000000, 0x0000000000000000,
      0x0000000000000000, 0x0000000000000000, 0x0000000000000000, 0x0000000000000000,
      0x8000000000000000, 0x0000000000000000, 0x0000000000000000, 0x0000000000000000,
      0x0000000000000000, 0x0000000000000000, 0x0000000000000000, 0x0000000000000000,
      0x0000000000000000]
     (take 10 round_constants) =
     [0xCC8141599E000833, 0x6C867F62404A7D87, 0x0EA345214CA985F2, 0x549B48713FC929E1,
      0x2DE446AAEC3B671C, 0x4F3457E2B925C9B0, 0x2FA7189FA0DD48B1, 0x708746047E9A4A2E,
      0x33B4F927F774D1CC, 0x15E34573B1DC940D, 0xDCAD40BA4E7DCC59, 0x0444ECA3FBD1B91E,
      0x6677551E10D3268D, 0xEC425083486F1CE7, 0x1E33D02921113E30, 0x7A0B682525AC3EE5,
      0x2603D377736E6C6E, 0xEEDE6565812BE09A, 0x9D13AD9FB73EB73D, 0x0D260DC5CB048828,
      0x804E96C854D14A6F, 0xC7E00AD6D3877EAE, 0xCD6955FC335A0DF4, 0xA161F319F6B982AE,
      0xF2ACDADBDFE76D8C]"
proof -
  have next_round: "take 10 round_constants = take 9 round_constants @ [0x0000000000000088]"
    by (simp add: round_constants_def)
  show ?thesis
    unfolding next_round foldl_append name_rounds_9 by (simp add: round_lanes)
qed

lemma name_rounds_11:
  "foldl keccak_round
     [0x00012928656D616E, 0x0000000000000000, 0x0000000000000000, 0x0000000000000000,
      0x0000000000000000, 0x0000000000000000, 0x0000000000000000, 0x0000000000000000,
      0x0000000000000000, 0x0000000000000000, 0x0000000000000000, 0x0000000000000000,
      0x0000000000000000, 0x0000000000000000, 0x0000000000000000, 0x0000000000000000,
      0x8000000000000000, 0x0000000000000000, 0x0000000000000000, 0x0000000000000000,
      0x0000000000000000, 0x0000000000000000, 0x0000000000000000, 0x0000000000000000,
      0x0000000000000000]
     (take 11 round_constants) =
     [0x4075E06C51428D2C, 0xE7B1BF5B27F3E9AD, 0xB9D6BE74615733CC, 0x0C1D10FCC160AD5D,
      0xAE9C142D350C635A, 0xB78C268DDD607A70, 0x9C841EBB291F857F, 0x80ED0C7E88BECE5A,
      0x34ED3E5B8A5BF90D, 0xE8BA0706A355423F, 0x8C271D14F2DA3942, 0x0F78D139FEBFDDEE,
      0xA71588D6C28DB77F, 0xA2E15FA899B9D8F3, 0xDCFDAC6C79E9D7DC, 0x08E9032565828500,
      0xC6671A591C2F7F1A, 0x5C050A835AB6C39F, 0xA45EDE34EE609633, 0xFC3D35D4FFDB68ED,
      0x7284FA6E9E6F7E42, 0xB40C95C71CDBCFD7, 0x168E7853439F4768, 0xEC5561DD26F9281F,
      0x598CB9FE8A90BF80]"
proof -
  have next_round: "take 11 round_constants = take 10 round_constants @ [0x0000000080008009]"
    by (simp add: round_constants_def)
  show ?thesis
    unfolding next_round foldl_append name_rounds_10 by (simp add: round_lanes)
qed

lemma name_rounds_12:
  "foldl keccak_round
     [0x00012928656D616E, 0x0000000000000000, 0x0000000000000000, 0x0000000000000000,
      0x0000000000000000, 0x0000000000000000, 0x0000000000000000, 0x0000000000000000,
      0x0000000000000000, 0x0000000000000000, 0x0000000000000000, 0x0000000000000000,
      0x0000000000000000, 0x0000000000000000, 0x0000000000000000, 0x0000000000000000,
      0x8000000000000000, 0x0000000000000000, 0x0000000000000000, 0x0000000000000000,
      0x0000000000000000, 0x0000000000000000, 0x0000000000000000, 0x0000000000000000,
      0x0000000000000000]
     (take 12 round_constants) =
     [0x974E25A68FE58F20, 0x0AA0D0049A60D947, 0xE61CCCA03E1ECA30, 0x6F3F326572B3C8FC,
      0x0C18A4E9A9EDB2BD, 0x8C6933BAF11E8067, 0xCB125E023484B878, 0x3C1605BC4B98DBE5,
      0x12A37DD77F19FC36, 0x9701A71A1060D878, 0xDEB41B530CEB817A, 0xBF19F6166BCA7705,
      0x613D94AA9BD02462, 0x413E477D661A5B3D, 0xFF38336972D12A8C, 0xB1A391CFEEBF0CF9,
      0x5D55876B589677FB, 0x8CCC5C30CDD33E3A, 0x242D8683B266FB53, 0xE512206F0A21F0A7,
      0x26F1C6B969E09E4C, 0x5EC746795B4AF432, 0xFCD76406A0D3EB74, 0xEB6F0E4F95BD8B3C,
      0x2ADA9587F353FAEA]"
proof -
  have next_round: "take 12 round_constants = take 11 round_constants @ [0x000000008000000A]"
    by (simp add: round_constants_def)
  show ?thesis
    unfolding next_round foldl_append name_rounds_11 by (simp add: round_lanes)
qed

lemma name_rounds_13:
  "foldl keccak_round
     [0x00012928656D616E, 0x0000000000000000, 0x0000000000000000, 0x0000000000000000,
      0x0000000000000000, 0x0000000000000000, 0x0000000000000000, 0x0000000000000000,
      0x0000000000000000, 0x0000000000000000, 0x0000000000000000, 0x0000000000000000,
      0x0000000000000000, 0x0000000000000000, 0x0000000000000000, 0x0000000000000000,
      0x8000000000000000, 0x0000000000000000, 0x0000000000000000, 0x0000000000000000,
      0x0000000000000000, 0x0000000000000000, 0x0000000000000000, 0x0000000000000000,
      0x0000000000000000]
     (take 13 round_constants) =
     [0x46F1D5D7B1223C40, 0x7EDA98F968E1A426, 0xA46057B62A65F30D, 0xFA6AAF01F4517A9D,
      0x087DF5413BC99F1A, 0x500F9BE0DF3F0514, 0xB2AB7B47EDC46713, 0x31F289A5C4138CD4,
      0x844A137902EA70AE, 0xEA659BBF7FDEFA1F, 0x9C72822243A78A69, 0xFBBB31A52B58644A,
      0xB429605CB192525C, 0x68549DFCD5D22FE2, 0xE4B674AAD2A19C2C, 0xC8F866818A5265AE,
      0x9F5C59C697684EC4, 0x8DF92A6083AB4D0B, 0x72920D7B4AFD4B1A, 0xE971883D7E5EBFAF,
      0x8F391D3DBC0D1C16, 0x8B9F1B890B0079C4, 0x13274A522D2309EE, 0x7EDA37A96AC368BA,
      0x093D7F06E360A4E6]"
proof -
  have next_round: "take 13 round_constants = take 12 round_constants @ [0x000000008000808B]"
    by (simp add: round_constants_def)
  show ?thesis
    unfolding next_round foldl_append name_rounds_12 by (simp add: round_lanes)
qed

lemma name_rounds_14:
  "foldl keccak_round
     [0x00012928656D616E, 0x0000000000000000, 0x0000000000000000, 0x0000000000000000,
      0x0000000000000000, 0x0000000000000000, 0x0000000000000000, 0x0000000000000000,
      0x0000000000000000, 0x0000000000000000, 0x0000000000000000, 0x0000000000000000,
      0x0000000000000000, 0x0000000000000000, 0x0000000000000000, 0x0000000000000000,
      0x8000000000000000, 0x0000000000000000, 0x0000000000000000, 0x0000000000000000,
      0x0000000000000000, 0x0000000000000000, 0x0000000000000000, 0x0000000000000000,
      0x0000000000000000]
     (take 14 round_constants) =
     [0x2E021518DEB5DA75, 0xA6F4E016C641530F, 0xCEB628F9CEB2040F, 0x5F15981C0560DAD9,
      0x9335D5FD0CE72367, 0x2528867AA8ACE92B, 0xF174B4B49C06246C, 0xA410A72D6103559D,
      0xABF005F9C2DE25DA, 0xBA1EED91556116AA, 0x849D2F57A78891F7, 0xE053F7366A0C0600,
      0xBF6419B5BE35C330, 0x4EEC180EC3B595AD, 0x63A99E937224BD2B, 0xDC592F239456CD0A,
      0x0BC8782F67EE263F, 0xEDEBFF7A97F48BA1, 0x663EDBC86C890D4E, 0x1A882ABF012D9CB4,
      0x34C0F66387378FF5, 0x66B335CBFE24C366, 0x1EA7A81DC0215573, 0xEFCE5CC01454942F,
      0x635F4267A0B5C60A]"
proof -
  have next_round: "take 14 round_constants = take 13 round_constants @ [0x800000000000008B]"
    by (simp add: round_constants_def)
  show ?thesis
    unfolding next_round foldl_append name_rounds_13 by (simp add: round_lanes)
qed

lemma name_rounds_15:
  "foldl keccak_round
     [0x00012928656D616E, 0x0000000000000000, 0x0000000000000000, 0x0000000000000000,
      0x0000000000000000, 0x0000000000000000, 0x0000000000000000, 0x0000000000000000,
      0x0000000000000000, 0x0000000000000000, 0x0000000000000000, 0x0000000000000000,
      0x0000000000000000, 0x0000000000000000, 0x0000000000000000, 0x0000000000000000,
      0x8000000000000000, 0x0000000000000000, 0x0000000000000000, 0x0000000000000000,
      0x0000000000000000, 0x0000000000000000, 0x0000000000000000, 0x0000000000000000,
      0x0000000000000000]
     (take 15 round_constants) =
     [0xA00607DF850CA281, 0x55EEF81875781D25, 0xEF1CA251FB8A3BFE, 0xD823D422B340C330,
      0xE7527E40CD6ABA9B, 0x51356BA830F80815, 0xD28AC5565EF4FA95, 0x60E764CBF58A7E18,
      0x8AD1673FF218CD32, 0xFCF52C373E05D778, 0x94AE0EED803247FB, 0x7253B3CC4B6BCB23,
      0x1D366AFB1F5D9A9A, 0x24E8B13E1AABC387, 0xD08458399CAB4317, 0x2FAE8C116A4610C7,
      0x1377730636C96B97, 0xE5C8B490F8BE8B0D, 0x8A66636C5E3228DB, 0xFFFEDB6B99CF3B7C,
      0xDC793490E1849D6B, 0xDB5DA01CE018FF7C, 0xA9C6240547AB6884, 0x12967EA59C5EDA30,
      0x330780E6D9928F45]"
proof -
  have next_round: "take 15 round_constants = take 14 round_constants @ [0x8000000000008089]"
    by (simp add: round_constants_def)
  show ?thesis
    unfolding next_round foldl_append name_rounds_14 by (simp add: round_lanes)
qed

lemma name_rounds_16:
  "foldl keccak_round
     [0x00012928656D616E, 0x0000000000000000, 0x0000000000000000, 0x0000000000000000,
      0x0000000000000000, 0x0000000000000000, 0x0000000000000000, 0x0000000000000000,
      0x0000000000000000, 0x0000000000000000, 0x0000000000000000, 0x0000000000000000,
      0x0000000000000000, 0x0000000000000000, 0x0000000000000000, 0x0000000000000000,
      0x8000000000000000, 0x0000000000000000, 0x0000000000000000, 0x0000000000000000,
      0x0000000000000000, 0x0000000000000000, 0x0000000000000000, 0x0000000000000000,
      0x0000000000000000]
     (take 16 round_constants) =
     [0xFD26CD465EFD7CAF, 0x0F2FDF9460E009EB, 0xA2EBF9EEB025A892, 0x56F5C908B41B229F,
      0x08D7DD917C693F1C, 0x0471BC79F6B142A2, 0xDAAD7E23F9197820, 0x4B5728361E750B73,
      0xAA55F3339A9F9ABA, 0x53ADE9CB1156DDCC, 0x6C12B7D4FE991806, 0x0BA1B7F428AAAE41,
      0xE15DA81454F13C1E, 0x053480687A459D25, 0x7A0B89C9DD7CA107, 0xA5473206A32946EC,
      0xB3E026DACDCC1727, 0x68C1BB872E610835, 0x4B6AB4D926D448AC, 0x4F4BE1619B3D34D0,
      0x53A75C0646D8FD4A, 0x4F0CD3D8A685B5A1, 0x1C5EF4117FCBEB3C, 0x644484A3894DE057,
      0xEE4C8CC02A3299F3]"
proof -
  have next_round: "take 16 round_constants = take 15 round_constants @ [0x8000000000008003]"
    by (simp add: round_constants_def)
  show ?thesis
    unfolding next_round foldl_append name_rounds_15 by (simp add: round_lanes)
qed

lemma name_rounds_17:
  "foldl keccak_round
     [0x00012928656D616E, 0x0000000000000000, 0x0000000000000000, 0x0000000000000000,
      0x0000000000000000, 0x0000000000000000, 0x0000000000000000, 0x0000000000000000,
      0x0000000000000000, 0x0000000000000000, 0x0000000000000000, 0x0000000000000000,
      0x0000000000000000, 0x0000000000000000, 0x0000000000000000, 0x0000000000000000,
      0x8000000000000000, 0x0000000000000000, 0x0000000000000000, 0x0000000000000000,
      0x0000000000000000, 0x0000000000000000, 0x0000000000000000, 0x0000000000000000,
      0x0000000000000000]
     (take 17 round_constants) =
     [0xFADEF097DBDDCA41, 0xBDE6D4974FA11DE6, 0xD3D92E77F3683309, 0x74F1BAEA1667BF24,
      0xD4CFA9C0CBF62E6F, 0x2D5D93304BAE27E7, 0xA37800639684A5C9, 0x7FCD0B4A1D2477F5,
      0xCFECDD0F3CD2E15C, 0xF07CC426DE3C11B8, 0xAC6C11E54BC4D759, 0x296FD80ABF9B5363,
      0xAD62EEF9F6EB460D, 0xBA1AAE1225A6F31A, 0x39CC068B12817919, 0xBE414F5F8AE93270,
      0x3A9564AD0DCDDD38, 0xA9DEFD24EB288E03, 0x9149812857AE538F, 0x488CF7B28C2253C5,
      0x6F54D3BA5E03AABA, 0x52CF63F286D9E291, 0x67DB8D2DFFBF1A23, 0xA8A401677D69DE34,
      0xC1FF7E198E474386]"
proof -
  have next_round: "take 17 round_constants = take 16 round_constants @ [0x8000000000008002]"
    by (simp add: round_constants_def)
  show ?thesis
    unfolding next_round foldl_append name_rounds_16 by (simp add: round_lanes)
qed

lemma name_rounds_18:
  "foldl keccak_round
     [0x00012928656D616E, 0x0000000000000000, 0x0000000000000000, 0x0000000000000000,
      0x0000000000000000, 0x0000000000000000, 0x0000000000000000, 0x0000000000000000,
      0x0000000000000000, 0x0000000000000000, 0x0000000000000000, 0x0000000000000000,
      0x0000000000000000, 0x0000000000000000, 0x0000000000000000, 0x0000000000000000,
      0x8000000000000000, 0x0000000000000000, 0x0000000000000000, 0x0000000000000000,
      0x0000000000000000, 0x0000000000000000, 0x0000000000000000, 0x0000000000000000,
      0x0000000000000000]
     (take 18 round_constants) =
     [0x1D9E011AA7863702, 0x2385D133599B6C63, 0x5C0B111AEAF06987, 0x2C2E385D0C8CD079,
      0x389A152E51DCE321, 0x81B19A4E4469BC8A, 0x0F4E95E642ABD53F, 0xB897212A2DFCF054,
      0x1A55F9917FBA0F5E, 0x853AC78E9BB7F3DB, 0x91B58A45913965C1, 0x7D84A6C884BDBE91,
      0xAEDB94D1B27AE1B8, 0x9063DEA3ED3D53E4, 0xF4FE654B1F75982C, 0x37849EF472CF15CD,
      0x6FA7AA1560FE68D9, 0x850196C8BD22D050, 0xB37AA695C42EC3D8, 0xB616CE7F264B6FF5,
      0x0B633903DD9A8907, 0x4B846951B129DF44, 0x6D4F55BE29493E80, 0x01BA6BABA73FBD2B,
      0xDB5FA96E6590E275]"
proof -
  have next_round: "take 18 round_constants = take 17 round_constants @ [0x8000000000000080]"
    by (simp add: round_constants_def)
  show ?thesis
    unfolding next_round foldl_append name_rounds_17 by (simp add: round_lanes)
qed

lemma name_rounds_19:
  "foldl keccak_round
     [0x00012928656D616E, 0x0000000000000000, 0x0000000000000000, 0x0000000000000000,
      0x0000000000000000, 0x0000000000000000, 0x0000000000000000, 0x0000000000000000,
      0x0000000000000000, 0x0000000000000000, 0x0000000000000000, 0x0000000000000000,
      0x0000000000000000, 0x0000000000000000, 0x0000000000000000, 0x0000000000000000,
      0x8000000000000000, 0x0000000000000000, 0x0000000000000000, 0x0000000000000000,
      0x0000000000000000, 0x0000000000000000, 0x0000000000000000, 0x0000000000000000,
      0x0000000000000000]
     (take 19 round_constants) =
     [0x5651D3428DFFDADE, 0x2AEDA789D7A0D65D, 0xACB0CF5034999863, 0xCCA0043B794D3B2C,
      0x2D10AC432F504E5E, 0x86D1B4867C608FCB, 0x8508F9AF4EECBFD7, 0xFBC2986C5BCC41AC,
      0x3EE4079F763B8D49, 0x071E1030913BFD42, 0x2D97106D0E52E52E, 0x2799964675E158F9,
      0x0A4D491446739E03, 0x35A1E3345B78A2CC, 0xBF077BA9D36E0EA3, 0x9EDE0788BA70D956,
      0xE11C974637D0E8A8, 0x9B1E9E651ECE1422, 0x898D07A6F02429BA, 0x5DEA0CE98CEBA801,
      0xD03221781183A649, 0xEED84B2D69C98698, 0x35CB8D4146AB69AC, 0x7EF1D2EA93B8B5DC,
      0xDF645AE5521E1240]"
proof -
  have next_round: "take 19 round_constants = take 18 round_constants @ [0x000000000000800A]"
    by (simp add: round_constants_def)
  show ?thesis
    unfolding next_round foldl_append name_rounds_18 by (simp add: round_lanes)
qed

lemma name_rounds_20:
  "foldl keccak_round
     [0x00012928656D616E, 0x0000000000000000, 0x0000000000000000, 0x0000000000000000,
      0x0000000000000000, 0x0000000000000000, 0x0000000000000000, 0x0000000000000000,
      0x0000000000000000, 0x0000000000000000, 0x0000000000000000, 0x0000000000000000,
      0x0000000000000000, 0x0000000000000000, 0x0000000000000000, 0x0000000000000000,
      0x8000000000000000, 0x0000000000000000, 0x0000000000000000, 0x0000000000000000,
      0x0000000000000000, 0x0000000000000000, 0x0000000000000000, 0x0000000000000000,
      0x0000000000000000]
     (take 20 round_constants) =
     [0xD826F8E7DBF673F7, 0x603F6D93FB246E85, 0xC584D47A78843EDD, 0x2C78D8609ACCECA0,
      0xF323F66C61392E02, 0x2CFBE0C96316B208, 0x7580DFCE85C5171C, 0x9B0D453EC635E67B,
      0x8EF7F6075B80E22C, 0x6B683358CF2641FE, 0xD507D99EA2A0DA60, 0xD739F7F0976FDA47,
      0x48FFAF429D93A98F, 0x189B4683868E5FE2, 0x60DF3A0D69802711, 0x3DF1EEC2C65ED85D,
      0x8F080B8B6A124A7A, 0xD9740B5D250D60CE, 0x7DEE8BAD2D2D5E93, 0xE0A015D56BA51FA2,
      0x9282BE58DA04160D, 0xEBB14D9CDC38DC05, 0x6B90124718F60780, 0xC0C2F304D17E93D0,
      0x82AD013778F4BCB6]"
proof -
  have next_round: "take 20 round_constants = take 19 round_constants @ [0x800000008000000A]"
    by (simp add: round_constants_def)
  show ?thesis
    unfolding next_round foldl_append name_rounds_19 by (simp add: round_lanes)
qed

lemma name_rounds_21:
  "foldl keccak_round
     [0x00012928656D616E, 0x0000000000000000, 0x0000000000000000, 0x0000000000000000,
      0x0000000000000000, 0x0000000000000000, 0x0000000000000000, 0x0000000000000000,
      0x0000000000000000, 0x0000000000000000, 0x0000000000000000, 0x0000000000000000,
      0x0000000000000000, 0x0000000000000000, 0x0000000000000000, 0x0000000000000000,
      0x8000000000000000, 0x0000000000000000, 0x0000000000000000, 0x0000000000000000,
      0x0000000000000000, 0x0000000000000000, 0x0000000000000000, 0x0000000000000000,
      0x0000000000000000]
     (take 21 round_constants) =
     [0xAFC3304D341267C4, 0x9E318312B0914BA1, 0x292B15C186633BB8, 0x62D3493B70CD58A3,
      0x5CEB78F462CC2E93, 0xB9D8A35B42ED544C, 0x5479C837D6463817, 0x37110FA20D3ED798,
      0xD4EF49C3B342B8B7, 0x7C7CEE08E20C217F, 0x4F077507C0193A6B, 0x5B9DCF3BAC92E09E,
      0x50BB973EB7C77469, 0xCF06EDDD80283EF0, 0xDB4644F2767FD191, 0xFE14685D9B475E21,
      0x8D1F2F6B83D266FD, 0x90E2EBB195E91E00, 0x3E9A8E093692FCBC, 0x455260218FE6BA12,
      0x9972AD6ADC00C4A7, 0x7CBE25417276B301, 0x124A5194C8440E6B, 0xBBB17A126C049392,
      0xF4FF483A9C36B604]"
proof -
  have next_round: "take 21 round_constants = take 20 round_constants @ [0x8000000080008081]"
    by (simp add: round_constants_def)
  show ?thesis
    unfolding next_round foldl_append name_rounds_20 by (simp add: round_lanes)
qed

lemma name_rounds_22:
  "foldl keccak_round
     [0x00012928656D616E, 0x0000000000000000, 0x0000000000000000, 0x0000000000000000,
      0x0000000000000000, 0x0000000000000000, 0x0000000000000000, 0x0000000000000000,
      0x0000000000000000, 0x0000000000000000, 0x0000000000000000, 0x0000000000000000,
      0x0000000000000000, 0x0000000000000000, 0x0000000000000000, 0x0000000000000000,
      0x8000000000000000, 0x0000000000000000, 0x0000000000000000, 0x0000000000000000,
      0x0000000000000000, 0x0000000000000000, 0x0000000000000000, 0x0000000000000000,
      0x0000000000000000]
     (take 22 round_constants) =
     [0x855ED672C7BE1925, 0x0AE1D63D185A5651, 0x2E0916C6691AA1F4, 0x8B57297AAFB2E948,
      0x0F73709410011B5E, 0xA5B64F55E3A01CE2, 0x879AA3CF0FAB5B9A, 0x6DD4834B858B6C22,
      0x100BE7228FD78E81, 0x43421D119C67047C, 0x7C209DAD06BC9916, 0x72C4A8D0BB3CA4EB,
      0x1417A8A660BFE145, 0xE71DD77C960282C7, 0xAD9158B6449069F4, 0xEECEF3C0DFEAD8AE,
      0x2DF4F0F3B8F45665, 0x920897F531C99353, 0x33F85A710380955A, 0x66E3698A61D3EEFE,
      0x6A7E2A4AF279C73A, 0xF1C69B854A1C555B, 0x2CFB6AB9D56D4042, 0xD0058CCB6204472B,
      0x6BD9B7D80EE4D0C7]"
proof -
  have next_round: "take 22 round_constants = take 21 round_constants @ [0x8000000000008080]"
    by (simp add: round_constants_def)
  show ?thesis
    unfolding next_round foldl_append name_rounds_21 by (simp add: round_lanes)
qed

lemma name_rounds_23:
  "foldl keccak_round
     [0x00012928656D616E, 0x0000000000000000, 0x0000000000000000, 0x0000000000000000,
      0x0000000000000000, 0x0000000000000000, 0x0000000000000000, 0x0000000000000000,
      0x0000000000000000, 0x0000000000000000, 0x0000000000000000, 0x0000000000000000,
      0x0000000000000000, 0x0000000000000000, 0x0000000000000000, 0x0000000000000000,
      0x8000000000000000, 0x0000000000000000, 0x0000000000000000, 0x0000000000000000,
      0x0000000000000000, 0x0000000000000000, 0x0000000000000000, 0x0000000000000000,
      0x0000000000000000]
     (take 23 round_constants) =
     [0x2FDF51BD5C3A6575, 0xE8FD39C17F001F19, 0xC13C00870402FDAE, 0x94EAD13DA4D07A5B,
      0xE0B119993B8CC92D, 0xDD832971FA859DF5, 0x88B17AAC4C854026, 0xDF099B20E9A47E2A,
      0x8DCEA4FEAE838FB3, 0x6675BE7804939096, 0xB09502A7A9785721, 0x463688BD587B3894,
      0xA161B69E198E2635, 0xAFCC0488D3875A49, 0xFE252FD77DA52722, 0x6B9871D15103D408,
      0xC2AA0311EBE5CBD3, 0x1F74701E2766A5E2, 0x5F4260503BD9B77E, 0xF6C00B9ACD3905EE,
      0xCC934FEACA3CC943, 0x2F90F97253BC6C78, 0xA61B01652E163021, 0xC100BC4B38F64A88,
      0xCD37193E51A082DF]"
proof -
  have next_round: "take 23 round_constants = take 22 round_constants @ [0x0000000080000001]"
    by (simp add: round_constants_def)
  show ?thesis
    unfolding next_round foldl_append name_rounds_22 by (simp add: round_lanes)
qed

lemma name_rounds_24:
  "foldl keccak_round
     [0x00012928656D616E, 0x0000000000000000, 0x0000000000000000, 0x0000000000000000,
      0x0000000000000000, 0x0000000000000000, 0x0000000000000000, 0x0000000000000000,
      0x0000000000000000, 0x0000000000000000, 0x0000000000000000, 0x0000000000000000,
      0x0000000000000000, 0x0000000000000000, 0x0000000000000000, 0x0000000000000000,
      0x8000000000000000, 0x0000000000000000, 0x0000000000000000, 0x0000000000000000,
      0x0000000000000000, 0x0000000000000000, 0x0000000000000000, 0x0000000000000000,
      0x0000000000000000]
     (take 24 round_constants) =
     [0x585DF18303DEFD06, 0xDDC9861451741A2D, 0xB30479FB82A862F8, 0x96A7588E8B9BFED9,
      0x4E11EEBAF576C9A6, 0xAE5C799311EEEBC7, 0x3BBF5CFB2E10D50D, 0x6C9F929AA0A11E43,
      0xAB6797F2CFBF91B1, 0xF702CD468908FEA9, 0x9A92BB3820888EE4, 0x673646AFDC66E915,
      0xCF75B57216D7B4D9, 0xECAF69161323F63D, 0x9D52C9C11EEE4507, 0x470597ED36BE9B55,
      0xBA9845C3A1590848, 0x2B90B69CC3F3C3B7, 0xC98201BBB0A252D2, 0x92DB56D5AD38E981,
      0x01C24AED5994F701, 0xC0D5EF16D4E78636, 0x5708448E6747A2CC, 0xD9110B1D15144E50,
      0x5094B29E73B1F1FD]"
proof -
  have next_round: "take 24 round_constants = take 23 round_constants @ [0x8000000080008008]"
    by (simp add: round_constants_def)
  show ?thesis
    unfolding next_round foldl_append name_rounds_23 by (simp add: round_lanes)
qed

lemma name_permutation:
  "keccak_f
     [0x00012928656D616E, 0x0000000000000000, 0x0000000000000000, 0x0000000000000000,
      0x0000000000000000, 0x0000000000000000, 0x0000000000000000, 0x0000000000000000,
      0x0000000000000000, 0x0000000000000000, 0x0000000000000000, 0x0000000000000000,
      0x0000000000000000, 0x0000000000000000, 0x0000000000000000, 0x0000000000000000,
      0x8000000000000000, 0x0000000000000000, 0x0000000000000000, 0x0000000000000000,
      0x0000000000000000, 0x0000000000000000, 0x0000000000000000, 0x0000000000000000,
      0x0000000000000000] =
     [0x585DF18303DEFD06, 0xDDC9861451741A2D, 0xB30479FB82A862F8, 0x96A7588E8B9BFED9,
      0x4E11EEBAF576C9A6, 0xAE5C799311EEEBC7, 0x3BBF5CFB2E10D50D, 0x6C9F929AA0A11E43,
      0xAB6797F2CFBF91B1, 0xF702CD468908FEA9, 0x9A92BB3820888EE4, 0x673646AFDC66E915,
      0xCF75B57216D7B4D9, 0xECAF69161323F63D, 0x9D52C9C11EEE4507, 0x470597ED36BE9B55,
      0xBA9845C3A1590848, 0x2B90B69CC3F3C3B7, 0xC98201BBB0A252D2, 0x92DB56D5AD38E981,
      0x01C24AED5994F701, 0xC0D5EF16D4E78636, 0x5708448E6747A2CC, 0xD9110B1D15144E50,
      0x5094B29E73B1F1FD]"
proof -
  have "take 24 round_constants = round_constants"
    by (simp add: round_constants_def)
  with name_rounds_24 show ?thesis
    by (simp only: keccak_f_def)
qed

lemma upt_17: "[0..<17] = [0, 1, 2, 3, 4, 5, 6, 7, 8, 9, 10, 11, 12, 13, 14, 15, 16]"
  by (simp add: upt_conv_Cons)

lemma lane_of_zeros: "lane_of_bytes (replicate n 0) = 0"
  by (induction n) simp_all

lemma lane_of_zeros_then: "lane_of_bytes (replicate n 0 @ bs) = push_bit (8 * n) (lane_of_bytes bs)"
  by (induction n) (simp_all add: push_bit_add)

lemma name_padded:
  "pad (encode_utf8 ''name()'') =
     0x6E # 0x61 # 0x6D # 0x65 # 0x28 # 0x29 # 0x01 # replicate 128 0 @ [0x80]"
  by (simp add: pad_def encode_utf8_def)

lemma name_block:
  "absorb_block (replicate 25 0)
     (0x6E # 0x61 # 0x6D # 0x65 # 0x28 # 0x29 # 0x01 # replicate 128 0 @ [0x80]) =
     keccak_f
       [0x00012928656D616E, 0x0000000000000000, 0x0000000000000000, 0x0000000000000000,
        0x0000000000000000, 0x0000000000000000, 0x0000000000000000, 0x0000000000000000,
        0x0000000000000000, 0x0000000000000000, 0x0000000000000000, 0x0000000000000000,
        0x0000000000000000, 0x0000000000000000, 0x0000000000000000, 0x0000000000000000,
        0x8000000000000000, 0x0000000000000000, 0x0000000000000000, 0x0000000000000000,
        0x0000000000000000, 0x0000000000000000, 0x0000000000000000, 0x0000000000000000,
        0x0000000000000000]"
  by (simp add: absorb_block_def block_lanes_def upt_25 upt_17 lane_of_zeros lane_of_zeros_then)

lemma name_absorbed:
  "absorb (replicate 25 0) (pad (encode_utf8 ''name()'')) =
     [0x585DF18303DEFD06, 0xDDC9861451741A2D, 0xB30479FB82A862F8, 0x96A7588E8B9BFED9,
      0x4E11EEBAF576C9A6, 0xAE5C799311EEEBC7, 0x3BBF5CFB2E10D50D, 0x6C9F929AA0A11E43,
      0xAB6797F2CFBF91B1, 0xF702CD468908FEA9, 0x9A92BB3820888EE4, 0x673646AFDC66E915,
      0xCF75B57216D7B4D9, 0xECAF69161323F63D, 0x9D52C9C11EEE4507, 0x470597ED36BE9B55,
      0xBA9845C3A1590848, 0x2B90B69CC3F3C3B7, 0xC98201BBB0A252D2, 0x92DB56D5AD38E981,
      0x01C24AED5994F701, 0xC0D5EF16D4E78636, 0x5708448E6747A2CC, 0xD9110B1D15144E50,
      0x5094B29E73B1F1FD]"
  by (simp add: absorb.simps name_padded name_block name_permutation)

lemma keccak_name:
  "keccak ''name()'' =
     [0x06, 0xFD, 0xDE, 0x03, 0x83, 0xF1, 0x5D, 0x58, 0x2D, 0x1A, 0x74, 0x51, 0x14, 0x86, 0xC9, 0xDD,
      0xF8, 0x62, 0xA8, 0x82, 0xFB, 0x79, 0x04, 0xB3, 0xD9, 0xFE, 0x9B, 0x8B, 0x8E, 0x58, 0xA7, 0x96]"
  by (simp add: keccak_def keccak_256_def name_absorbed bytes_of_lane_def upt_conv_Cons)

lemma func_selector_name: "func_selector ''name()'' = [0x06, 0xFD, 0xDE, 0x03]"
  by (simp add: func_selector_def keccak_name)

section \<open>Claims about the selector and the call input\<close>

text \<open>
  C1. For every non-empty string \<open>s\<close>, \<open>func_selector s\<close> is the first 4 bytes of the
  Keccak-256 hash of \<open>s\<close> (of its UTF-8 bytes), and so has exactly 4 bytes.
\<close>

theorem func_selector_first_four_bytes:
  "s \<noteq> [] \<Longrightarrow>
     func_selector s = take 4 (keccak_256 (encode_utf8 s)) \<and> length (func_selector s) = 4"
  by (simp add: func_selector_def keccak_def length_keccak_256)

theorem func_selector_first_four_bytes_witness:
  "''name()'' \<noteq> [] \<and>
   func_selector ''name()'' = take 4 (keccak_256 (encode_utf8 ''name()'')) \<and>
   func_selector ''name()'' = [0x06, 0xFD, 0xDE, 0x03] \<and>
   length (func_selector ''name()'') = 4"
proof -
  have nonempty: "''name()'' \<noteq> []"
    by simp
  from func_selector_first_four_bytes [OF nonempty] nonempty func_selector_name show ?thesis
    by blast
qed

lemma encode_nothing: "encode [] [] = Inr []"
  by (simp add: encode_def head_tail_def head_length_def)

text \<open>
  C2. For every name, list of type tags and list of argument values, \<open>encode_input\<close> is the
  selector of the name followed by what the library's \<^verbatim>\<open>encode\<close> gives for the arguments
  against the types (and raises what it raises); for empty lists,
  \<open>encode_input encode ''name()'' [] []\<close> is exactly the selector of \<open>''name()''\<close>, the 4 bytes
  \<^verbatim>\<open>06 fd de 03\<close>, with nothing after them.
\<close>

theorem encode_input_selector_then_arguments:
  "encode_input lib_encode name types args =
     (case lib_encode types args of
        Inl e \<Rightarrow> Inl e
      | Inr encoded \<Rightarrow> Inr (func_selector name @ encoded)) \<and>
   encode [] [] = Inr [] \<and>
   encode_input encode ''name()'' [] [] = Inr (func_selector ''name()'') \<and>
   encode_input encode ''name()'' [] [] = Inr [0x06, 0xFD, 0xDE, 0x03] \<and>
   map_sum id length (encode_input encode ''name()'' [] []) = Inr 4"
  by (simp add: encode_input_def encode_nothing length_func_selector func_selector_name)

section \<open>Hex digits\<close>

lemma hex_digit_lower_hex: "d < 16 \<Longrightarrow> is_lower_hex (hex_digit d)"
  by (auto simp: hex_digit_def is_lower_hex_def less_Suc_eq numeral_eq_Suc)

lemma digits16_small: "n < 16 \<Longrightarrow> digits16 n = [hex_digit n]"
  by (subst digits16.simps) simp

lemma digits16_large:
  "16 \<le> n \<Longrightarrow> digits16 n = digits16 (n div 16) @ [hex_digit (n mod 16)]"
  by (subst digits16.simps) simp

lemma digits16_lower_hex: "list_all is_lower_hex (digits16 n)"
proof (induction n rule: digits16.induct)
  case (1 n)
  show ?case
  proof (cases "n < 16")
    case True
    then show ?thesis
      by (simp add: digits16_small hex_digit_lower_hex)
  next
    case False
    with "1.IH" show ?thesis
      by (simp add: digits16_large hex_digit_lower_hex)
  qed
qed

lemma digits16_nonempty: "digits16 n \<noteq> []"
  by (cases "n < 16") (simp_all add: digits16_small digits16_large)

lemma length_digits16_le: "n < 16 ^ Suc k \<Longrightarrow> length (digits16 n) \<le> Suc k"
proof (induction k arbitrary: n)
  case 0
  then show ?case
    by (simp add: digits16_small)
next
  case (Suc k)
  show ?case
  proof (cases "n < 16")
    case True
    then show ?thesis
      by (simp add: digits16_small)
  next
    case False
    from Suc.prems have "n div 16 < 16 ^ Suc k"
      by (simp add: less_mult_imp_div_less mult.commute)
    from Suc.IH [OF this] False show ?thesis
      by (simp add: digits16_large)
  qed
qed

lemma length_digits16_gt: "16 ^ k \<le> n \<Longrightarrow> k < length (digits16 n)"
proof (induction k arbitrary: n)
  case 0
  then show ?case
    using digits16_nonempty [of n] by (simp add: Suc_le_eq)
next
  case (Suc k)
  have "(1::nat) \<le> 16 ^ k"
    by simp
  then have "(16::nat) \<le> 16 * 16 ^ k"
    by linarith
  also have "\<dots> = 16 ^ Suc k"
    by simp
  also note Suc.prems
  finally have big: "16 \<le> n" .
  from Suc.prems have "16 ^ k \<le> n div 16"
    by (simp add: less_eq_div_iff_mult_less_eq mult.commute)
  from Suc.IH [OF this] big show ?case
    by (simp add: digits16_large)
qed

section \<open>Characters of hex strings\<close>

lemma lower_hex_table:
  "\<forall>c\<in>set ''0123456789abcdef''.
     is_hex_char c \<and> c \<noteq> CHR ''x'' \<and> c \<noteq> CHR ''X'' \<and> c \<noteq> CHR ''+'' \<and> c \<noteq> CHR ''-'' \<and>
     lower_char c = c \<and> lower_char (upper_char c) = c \<and> is_hex_char (upper_char c)"
  by (simp add: is_hex_char_def lower_char_def upper_char_def)

lemma lower_hex_facts:
  assumes "is_lower_hex c"
  shows "is_hex_char c" and "c \<noteq> CHR ''x''" and "c \<noteq> CHR ''X''" and "c \<noteq> CHR ''+''"
    and "c \<noteq> CHR ''-''" and "lower_char c = c" and "lower_char (upper_char c) = c"
    and "is_hex_char (upper_char c)"
  using assms lower_hex_table unfolding is_lower_hex_def by blast+

lemma hex_char_table: "\<forall>c\<in>set ''0123456789abcdefABCDEF''. c \<noteq> CHR ''x'' \<and> c \<noteq> CHR ''X''"
  by simp

lemma hex_char_facts:
  assumes "is_hex_char c"
  shows "c \<noteq> CHR ''x''" and "c \<noteq> CHR ''X''"
  using assms hex_char_table unfolding is_hex_char_def by blast+

lemma hex_chars_not_prefixed: "list_all is_hex_char s \<Longrightarrow> \<not> is_0x_prefixed s"
proof (cases s)
  case Nil
  then show ?thesis
    by (simp add: is_0x_prefixed_def)
next
  case (Cons a t)
  assume hex: "list_all is_hex_char s"
  show ?thesis
  proof (cases t)
    case Nil
    with Cons show ?thesis
      by (simp add: is_0x_prefixed_def)
  next
    case (Cons b u)
    with \<open>s = a # t\<close> hex have "is_hex_char b"
      by simp
    then have "b \<noteq> CHR ''x''" and "b \<noteq> CHR ''X''"
      by (rule hex_char_facts)+
    with Cons \<open>s = a # t\<close> show ?thesis
      by (simp add: is_0x_prefixed_def)
  qed
qed

lemma lower_hex_all_hex: "list_all is_lower_hex s \<Longrightarrow> list_all is_hex_char s"
  by (induction s) (simp_all add: lower_hex_facts)

lemma lower_lower_hex: "list_all is_lower_hex s \<Longrightarrow> lower s = s"
  by (induction s) (simp_all add: lower_def lower_hex_facts)

lemma prefixed_0x: "is_0x_prefixed (CHR ''0'' # CHR ''x'' # s)"
  by (simp add: is_0x_prefixed_def)

lemma lower_0x: "lower (CHR ''0'' # CHR ''x'' # s) = CHR ''0'' # CHR ''x'' # lower s"
  by (simp add: lower_def lower_char_def)

section \<open>Checksum addresses of lowercase hex strings\<close>

lemma to_normalized_address_lower_hex:
  assumes "list_all is_lower_hex s"
  shows "to_normalized_address s =
    (if length s = 40 then Inr (CHR ''0'' # CHR ''x'' # s) else Inl ValueError)"
proof -
  from assms have hex: "list_all is_hex_char s"
    by (rule lower_hex_all_hex)
  then have np: "\<not> is_0x_prefixed s"
    by (rule hex_chars_not_prefixed)
  from hex np have ok: "(remove_0x_prefix s \<noteq> [] \<and> \<not> is_hexstr s) = False"
    by (cases "s = []") (simp_all add: is_hexstr_def remove_0x_prefix_def)
  from np assms have norm: "lower (add_0x_prefix (lower s)) = CHR ''0'' # CHR ''x'' # s"
    by (simp add: lower_lower_hex add_0x_prefix_def lower_0x)
  have addr: "is_hex_address (CHR ''0'' # CHR ''x'' # s) \<longleftrightarrow> length s = 40"
    using hex prefixed_0x [of s] by (simp add: is_hex_address_def remove_0x_prefix_def)
  show ?thesis
    unfolding to_normalized_address_def Let_def norm addr ok by simp
qed

lemma length_checksum_digits: "length (checksum_digits norm h) = 40"
  unfolding checksum_digits_def by (simp only: length_map length_upt)

lemma nth_checksum_digits:
  assumes "i < 40"
  shows "checksum_digits norm h ! i =
     (if 7 < hex_value (h ! (2 + i)) then upper_char (norm ! (2 + i)) else norm ! (2 + i))"
proof -
  have "length [2..<42::nat] = 40"
    by (simp only: length_upt)
  with assms have i: "i < length [2..<42::nat]"
    by (simp only:)
  from assms have "2 + i < 42"
    by simp
  then have at: "[2..<42] ! i = 2 + i"
    by (rule nth_upt)
  show ?thesis
    unfolding checksum_digits_def by (simp only: nth_map [OF i] at)
qed

lemma nth_checksum_digits_0x:
  "i < 40 \<Longrightarrow>
   checksum_digits (CHR ''0'' # CHR ''x'' # s) h ! i =
     (if 7 < hex_value (h ! (2 + i)) then upper_char (s ! i) else s ! i)"
  by (simp add: nth_checksum_digits)

lemma checksum_digits_hex:
  assumes "list_all is_lower_hex s" and "length s = 40"
  shows "list_all is_hex_char (checksum_digits (CHR ''0'' # CHR ''x'' # s) h)"
proof -
  have "is_hex_char (checksum_digits (CHR ''0'' # CHR ''x'' # s) h ! i)" if "i < 40" for i
  proof -
    from assms that have "is_lower_hex (s ! i)"
      by (simp add: list_all_length)
    then show ?thesis
      using that by (simp add: nth_checksum_digits_0x lower_hex_facts)
  qed
  then show ?thesis
    by (simp add: list_all_length length_checksum_digits)
qed

lemma lower_checksum_digits:
  assumes "list_all is_lower_hex s" and "length s = 40"
  shows "lower (checksum_digits (CHR ''0'' # CHR ''x'' # s) h) = s"
proof (rule nth_equalityI)
  show "length (lower (checksum_digits (CHR ''0'' # CHR ''x'' # s) h)) = length s"
    using assms by (simp add: lower_def length_checksum_digits)
next
  fix i
  assume "i < length (lower (checksum_digits (CHR ''0'' # CHR ''x'' # s) h))"
  then have i: "i < 40"
    by (simp add: lower_def length_checksum_digits)
  with assms have "is_lower_hex (s ! i)"
    by (simp add: list_all_length)
  with i show "lower (checksum_digits (CHR ''0'' # CHR ''x'' # s) h) ! i = s ! i"
    by (simp add: lower_def length_checksum_digits nth_checksum_digits_0x lower_hex_facts)
qed

lemma to_checksum_address_lower_hex:
  assumes "list_all is_lower_hex s"
  shows "to_checksum_address s =
    (if length s = 40
     then Inr (''0x'' @ checksum_digits (''0x'' @ s) (''0x'' @ bytes_hex (keccak s)))
     else Inl ValueError)"
proof (cases "length s = 40")
  case True
  from checksum_digits_hex [OF assms True]
  have "\<not> is_0x_prefixed (checksum_digits (CHR ''0'' # CHR ''x'' # s) h)" for h
    by (rule hex_chars_not_prefixed)
  then show ?thesis
    using True prefixed_0x [of s]
    by (simp add: to_checksum_address_def to_normalized_address_lower_hex [OF assms]
        remove_0x_prefix_def add_0x_prefix_def)
next
  case False
  then show ?thesis
    by (simp add: to_checksum_address_def to_normalized_address_lower_hex [OF assms])
qed

section \<open>The address of a number: lemmas\<close>

lemma zfill_lower_hex:
  assumes "list_all is_lower_hex s" and "s \<noteq> []"
  shows "zfill 40 s = replicate (40 - length s) CHR ''0'' @ s"
proof (cases s)
  case Nil
  with assms show ?thesis by simp
next
  case (Cons c cs)
  with assms have "is_lower_hex c"
    by simp
  then have "c \<noteq> CHR ''+''" and "c \<noteq> CHR ''-''"
    by (rule lower_hex_facts)+
  with Cons show ?thesis
    by (simp add: zfill_def)
qed

lemma lower_hex_zero: "is_lower_hex CHR ''0''"
  by (simp add: is_lower_hex_def)

lemma padded_lower_hex:
  "list_all is_lower_hex s \<Longrightarrow> list_all is_lower_hex (replicate k CHR ''0'' @ s)"
  by (induction k) (simp_all add: lower_hex_zero)

lemma hex_nonneg: "0 \<le> num \<Longrightarrow> drop 2 (hex num) = digits16 (nat num)"
  by (simp add: hex_def)

lemma hex_neg: "num < 0 \<Longrightarrow> drop 2 (hex num) = CHR ''x'' # digits16 (nat (- num))"
  by (simp add: hex_def)

lemma num_to_address_nonneg:
  assumes "0 \<le> num"
  shows "num_to_address num =
    to_checksum_address
      (replicate (40 - length (digits16 (nat num))) CHR ''0'' @ digits16 (nat num))"
  using assms
  by (simp add: num_to_address_def hex_nonneg zfill_lower_hex digits16_lower_hex
      digits16_nonempty)

lemma power_16_40: "(16::nat) ^ 40 = 2 ^ 160"
  by simp

lemma length_digits16_le_40: "length (digits16 n) \<le> 40 \<longleftrightarrow> n < 2 ^ 160"
proof
  assume "length (digits16 n) \<le> 40"
  show "n < 2 ^ 160"
  proof (rule ccontr)
    assume "\<not> n < 2 ^ 160"
    then have "16 ^ 40 \<le> n"
      by (simp only: power_16_40 not_less)
    then have "40 < length (digits16 n)"
      by (rule length_digits16_gt)
    with \<open>length (digits16 n) \<le> 40\<close> show False
      by simp
  qed
next
  assume "n < 2 ^ 160"
  then have "n < 16 ^ Suc 39"
    by (simp only: power_16_40 [symmetric]) simp
  then have "length (digits16 n) \<le> Suc 39"
    by (rule length_digits16_le)
  then show "length (digits16 n) \<le> 40"
    by simp
qed

lemma not_hex_x: "\<not> is_hex_char CHR ''x''"
  by (simp add: is_hex_char_def)

lemma to_normalized_address_x:
  assumes "CHR ''x'' \<in> set t" and "\<not> is_0x_prefixed t"
  shows "to_normalized_address t = Inl ValueError"
proof -
  from assms(1) have "t \<noteq> []"
    by auto
  moreover from assms(1) have "\<not> list_all is_hex_char t"
    using not_hex_x by (auto simp: list_all_iff)
  ultimately show ?thesis
    using assms(2) by (simp add: to_normalized_address_def remove_0x_prefix_def is_hexstr_def)
qed

lemma to_normalized_address_short:
  assumes "list_all is_lower_hex ds" and "ds \<noteq> []" and "length ds \<noteq> 40"
  shows "to_normalized_address (CHR ''0'' # CHR ''x'' # ds) = Inl ValueError"
proof -
  from assms(1) have hex: "list_all is_hex_char ds"
    by (rule lower_hex_all_hex)
  have pre: "is_0x_prefixed (CHR ''0'' # CHR ''x'' # ds)"
    by (rule prefixed_0x)
  from hex pre have ok: "is_hexstr (CHR ''0'' # CHR ''x'' # ds)"
    by (simp add: is_hexstr_def remove_0x_prefix_def)
  from assms(1) have low: "lower (CHR ''0'' # CHR ''x'' # ds) = CHR ''0'' # CHR ''x'' # ds"
    by (simp add: lower_0x lower_lower_hex)
  from pre have add: "add_0x_prefix (CHR ''0'' # CHR ''x'' # ds) = CHR ''0'' # CHR ''x'' # ds"
    by (simp add: add_0x_prefix_def)
  from pre assms(3) have "\<not> is_hex_address (CHR ''0'' # CHR ''x'' # ds)"
    by (simp add: is_hex_address_def remove_0x_prefix_def)
  then show ?thesis
    unfolding to_normalized_address_def Let_def low add using ok by (simp add: low)
qed

lemma num_to_address_negative:
  assumes "num < 0"
  shows "num_to_address num = Inl ValueError"
proof -
  define ds where "ds = digits16 (nat (- num))"
  define k where "k = 39 - length ds"
  have low: "list_all is_lower_hex ds" and ne: "ds \<noteq> []"
    by (simp_all add: ds_def digits16_lower_hex digits16_nonempty)
  have pad: "zfill 40 (CHR ''x'' # ds) = replicate k CHR ''0'' @ CHR ''x'' # ds"
    by (simp add: zfill_def k_def)
  have "to_normalized_address (replicate k CHR ''0'' @ CHR ''x'' # ds) = Inl ValueError"
  proof (cases k)
    case 0
    then show ?thesis
      by (simp add: to_normalized_address_x is_0x_prefixed_def)
  next
    case (Suc j)
    show ?thesis
    proof (cases j)
      case 0
      with Suc have "length ds = 38"
        by (simp add: k_def)
      with low ne Suc 0 show ?thesis
        by (simp add: to_normalized_address_short)
    next
      case (Suc i)
      with \<open>k = Suc j\<close> show ?thesis
        by (simp add: to_normalized_address_x is_0x_prefixed_def)
    qed
  qed
  with assms pad show ?thesis
    by (simp add: num_to_address_def hex_neg to_checksum_address_def ds_def)
qed

lemma to_normalized_address_prefixed:
  assumes "list_all is_lower_hex s" and "length s = 40"
  shows "to_normalized_address (CHR ''0'' # CHR ''x'' # s) = Inr (CHR ''0'' # CHR ''x'' # s)"
proof -
  from assms(1) have hex: "list_all is_hex_char s"
    by (rule lower_hex_all_hex)
  have pre: "is_0x_prefixed (CHR ''0'' # CHR ''x'' # s)"
    by (rule prefixed_0x)
  from hex pre have ok: "is_hexstr (CHR ''0'' # CHR ''x'' # s)"
    by (simp add: is_hexstr_def remove_0x_prefix_def)
  from assms(1) have low: "lower (CHR ''0'' # CHR ''x'' # s) = CHR ''0'' # CHR ''x'' # s"
    by (simp add: lower_0x lower_lower_hex)
  from pre have add: "add_0x_prefix (CHR ''0'' # CHR ''x'' # s) = CHR ''0'' # CHR ''x'' # s"
    by (simp add: add_0x_prefix_def)
  from pre hex assms(2) have "is_hex_address (CHR ''0'' # CHR ''x'' # s)"
    by (simp add: is_hex_address_def remove_0x_prefix_def)
  then show ?thesis
    unfolding to_normalized_address_def Let_def low add using ok by (simp add: low)
qed

lemma to_checksum_address_prefixed:
  assumes "list_all is_lower_hex s" and "length s = 40"
  shows "to_checksum_address (CHR ''0'' # CHR ''x'' # s) =
    Inr (''0x'' @ checksum_digits (''0x'' @ s) (''0x'' @ bytes_hex (keccak s)))"
proof -
  from checksum_digits_hex [OF assms]
  have "\<not> is_0x_prefixed (checksum_digits (CHR ''0'' # CHR ''x'' # s) h)" for h
    by (rule hex_chars_not_prefixed)
  then show ?thesis
    using prefixed_0x [of s]
    by (simp add: to_checksum_address_def to_normalized_address_prefixed [OF assms]
        remove_0x_prefix_def add_0x_prefix_def)
qed

text \<open>Digits have no upper case: on a string of digits the checksum changes nothing.\<close>

lemma checksum_digits_caseless:
  assumes "list_all (\<lambda>c. upper_char c = c) s" and "length s = 40"
  shows "checksum_digits (CHR ''0'' # CHR ''x'' # s) h = s"
proof (rule nth_equalityI)
  show "length (checksum_digits (CHR ''0'' # CHR ''x'' # s) h) = length s"
    using assms by (simp add: length_checksum_digits)
next
  fix i
  assume "i < length (checksum_digits (CHR ''0'' # CHR ''x'' # s) h)"
  then have i: "i < 40"
    by (simp add: length_checksum_digits)
  with assms have "upper_char (s ! i) = s ! i"
    by (simp add: list_all_length)
  with i show "checksum_digits (CHR ''0'' # CHR ''x'' # s) h ! i = s ! i"
    by (simp add: nth_checksum_digits_0x)
qed

lemma digits16_2050: "digits16 2050 = ''802''"
  by (simp add: digits16_large digits16_small hex_digit_def)

lemma address_2050_digits:
  "address_2050 = CHR ''0'' # CHR ''x'' # replicate 37 CHR ''0'' @ ''802''"
  by (simp add: address_2050_def eval_nat_numeral)

lemma digits_802_lower_hex: "list_all is_lower_hex (replicate 37 CHR ''0'' @ ''802'')"
  by (rule padded_lower_hex) (simp add: is_lower_hex_def)

lemma upper_digits: "upper_char CHR ''0'' = CHR ''0''" "upper_char CHR ''8'' = CHR ''8''"
  "upper_char CHR ''2'' = CHR ''2''"
  by (simp_all add: upper_char_def)

lemma digits_802_caseless:
  "list_all (\<lambda>c. upper_char c = c) (replicate 37 CHR ''0'' @ ''802'')"
  by (simp add: list_all_iff upper_digits)

lemma num_to_address_2050: "num_to_address 2050 = Inr address_2050"
proof -
  have "num_to_address 2050 = to_checksum_address (replicate 37 CHR ''0'' @ ''802'')"
    by (simp add: num_to_address_nonneg digits16_2050)
  also have "\<dots> = Inr address_2050"
    using digits_802_caseless
    by (simp add: to_checksum_address_lower_hex [OF digits_802_lower_hex] address_2050_digits
        checksum_digits_caseless)
  finally show ?thesis .
qed

lemma address_2050_checksummed: "is_checksum_address address_2050"
proof -
  have "is_hex_address address_2050"
    using lower_hex_all_hex [OF digits_802_lower_hex] prefixed_0x
    by (simp add: address_2050_digits is_hex_address_def remove_0x_prefix_def)
  moreover have "to_checksum_address address_2050 = Inr address_2050"
    using digits_802_caseless
    by (simp add: address_2050_digits to_checksum_address_prefixed [OF digits_802_lower_hex]
        checksum_digits_caseless)
  ultimately show ?thesis
    by (simp add: is_checksum_address_def)
qed

text \<open>
  C3. \<open>num_to_address 2050\<close> returns a string of 42 characters that starts with \<^verbatim>\<open>0x\<close>, is a
  valid checksum address, and in lower case is \<^verbatim>\<open>0x\<close> followed by \<^verbatim>\<open>802\<close> padded with zeros on
  the left to 40 digits; it is the script's \<open>CONTRACT_ADDRESS\<close>.
\<close>

theorem num_to_address_2050_checksummed:
  "num_to_address 2050 = Inr ''0x0000000000000000000000000000000000000802'' \<and>
   length ''0x0000000000000000000000000000000000000802'' = 42 \<and>
   take 2 ''0x0000000000000000000000000000000000000802'' = ''0x'' \<and>
   is_checksum_address ''0x0000000000000000000000000000000000000802'' \<and>
   lower ''0x0000000000000000000000000000000000000802'' =
     ''0x'' @ replicate (40 - length ''802'') CHR ''0'' @ ''802'' \<and>
   digits16 2050 = ''802'' \<and>
   CONTRACT_ADDRESS = Inr ''0x0000000000000000000000000000000000000802''"
proof -
  have "lower address_2050 = address_2050"
    using lower_lower_hex [OF digits_802_lower_hex] by (simp add: address_2050_digits lower_0x)
  moreover have "address_2050 = ''0x'' @ replicate (40 - length ''802'') CHR ''0'' @ ''802''"
    by (simp add: address_2050_digits)
  moreover have "length address_2050 = 42" and "take 2 address_2050 = ''0x''"
    by (simp_all add: address_2050_digits)
  ultimately show ?thesis
    using num_to_address_2050 address_2050_checksummed digits16_2050
    by (simp add: CONTRACT_ADDRESS_def address_2050_def)
qed

lemma num_to_address_in_range:
  assumes "0 \<le> num" and "num < 2 ^ 160"
  shows "length (zfill 40 (digits16 (nat num))) = 40"
    and "num_to_address num =
      Inr (''0x'' @ checksum_digits (''0x'' @ zfill 40 (digits16 (nat num)))
            (''0x'' @ bytes_hex (keccak (zfill 40 (digits16 (nat num))))))"
    and "map_sum id lower (num_to_address num) = Inr (''0x'' @ zfill 40 (digits16 (nat num)))"
    and "map_sum id length (num_to_address num) = Inr 42"
proof -
  define ds where "ds = digits16 (nat num)"
  define p where "p = replicate (40 - length ds) CHR ''0'' @ ds"
  have low: "list_all is_lower_hex ds" and ne: "ds \<noteq> []"
    by (simp_all add: ds_def digits16_lower_hex digits16_nonempty)
  from low ne have pad: "zfill 40 ds = p"
    by (simp add: zfill_lower_hex p_def)
  from assms have "nat num < 2 ^ 160"
    by (simp add: nat_less_iff)
  then have "length ds \<le> 40"
    by (simp add: ds_def length_digits16_le_40)
  then have len: "length p = 40"
    by (simp add: p_def)
  from low have lowp: "list_all is_lower_hex p"
    unfolding p_def by (rule padded_lower_hex)
  from assms(1) have eq: "num_to_address num = to_checksum_address p"
    by (simp add: num_to_address_nonneg p_def ds_def)
  have res: "num_to_address num =
      Inr (''0x'' @ checksum_digits (''0x'' @ p) (''0x'' @ bytes_hex (keccak p)))"
    using len by (simp add: eq to_checksum_address_lower_hex [OF lowp])
  show "length (zfill 40 (digits16 (nat num))) = 40"
    using pad len by (simp add: ds_def)
  show "num_to_address num =
      Inr (''0x'' @ checksum_digits (''0x'' @ zfill 40 (digits16 (nat num)))
            (''0x'' @ bytes_hex (keccak (zfill 40 (digits16 (nat num))))))"
    using res pad by (simp add: ds_def)
  show "map_sum id lower (num_to_address num) = Inr (''0x'' @ zfill 40 (digits16 (nat num)))"
    using pad lower_checksum_digits [OF lowp len]
    by (simp add: res lower_0x ds_def [symmetric])
  show "map_sum id length (num_to_address num) = Inr 42"
    by (simp add: res length_checksum_digits)
qed

lemma num_to_address_too_large:
  assumes "2 ^ 160 \<le> num"
  shows "40 < length (digits16 (nat num))" and "num_to_address num = Inl ValueError"
proof -
  from assms have nonneg: "0 \<le> num"
    by (rule order_trans [rotated]) simp
  from assms have "\<not> nat num < 2 ^ 160"
    by (simp add: nat_less_iff)
  then show long: "40 < length (digits16 (nat num))"
    using length_digits16_le_40 [of "nat num"] by simp
  have "list_all is_lower_hex (replicate (40 - length (digits16 (nat num))) CHR ''0'' @ digits16 (nat num))"
    by (rule padded_lower_hex) (rule digits16_lower_hex)
  from to_checksum_address_lower_hex [OF this] long nonneg
  show "num_to_address num = Inl ValueError"
    by (simp add: num_to_address_nonneg)
qed

text \<open>
  C4. For every non-negative \<open>num\<close>, \<open>num_to_address\<close> writes \<open>num\<close> in hex without the
  prefix, pads it with zeros on the left to 40 characters and passes it to the checksum
  formatting; below \<open>2 ^ 160\<close> the result is \<^verbatim>\<open>0x\<close> and the 40 padded digits in checksum
  case. For every integer whose hex digits are more than 40, \<open>num_to_address\<close> fails: it
  raises \<^verbatim>\<open>ValueError\<close>.
\<close>

theorem num_to_address_pads_and_checksums:
  "(0 \<le> num \<longrightarrow>
      drop 2 (hex num) = digits16 (nat num) \<and>
      zfill 40 (digits16 (nat num)) =
        replicate (40 - length (digits16 (nat num))) CHR ''0'' @ digits16 (nat num) \<and>
      num_to_address num = to_checksum_address (zfill 40 (digits16 (nat num))) \<and>
      (num < 2 ^ 160 \<longrightarrow>
         length (zfill 40 (digits16 (nat num))) = 40 \<and>
         num_to_address num =
           Inr (''0x'' @ checksum_digits (''0x'' @ zfill 40 (digits16 (nat num)))
                 (''0x'' @ bytes_hex (keccak (zfill 40 (digits16 (nat num)))))) \<and>
         map_sum id lower (num_to_address num) = Inr (''0x'' @ zfill 40 (digits16 (nat num))) \<and>
         map_sum id length (num_to_address num) = Inr 42) \<and>
      (2 ^ 160 \<le> num \<longrightarrow> 40 < length (digits16 (nat num)))) \<and>
   (40 < length (digits16 (nat \<bar>num\<bar>)) \<longrightarrow> num_to_address num = Inl ValueError)"
proof (intro conjI impI)
  assume "0 \<le> num"
  then show "drop 2 (hex num) = digits16 (nat num)"
    by (rule hex_nonneg)
  show pad: "zfill 40 (digits16 (nat num)) =
      replicate (40 - length (digits16 (nat num))) CHR ''0'' @ digits16 (nat num)"
    by (simp add: zfill_lower_hex digits16_lower_hex digits16_nonempty)
  from \<open>0 \<le> num\<close> show "num_to_address num = to_checksum_address (zfill 40 (digits16 (nat num)))"
    by (simp add: num_to_address_nonneg pad)
next
  assume "0 \<le> num" and "num < 2 ^ 160"
  then show "length (zfill 40 (digits16 (nat num))) = 40"
    and "num_to_address num =
      Inr (''0x'' @ checksum_digits (''0x'' @ zfill 40 (digits16 (nat num)))
            (''0x'' @ bytes_hex (keccak (zfill 40 (digits16 (nat num))))))"
    and "map_sum id lower (num_to_address num) = Inr (''0x'' @ zfill 40 (digits16 (nat num)))"
    and "map_sum id length (num_to_address num) = Inr 42"
    by (rule num_to_address_in_range)+
next
  assume "2 ^ 160 \<le> num"
  then show "40 < length (digits16 (nat num))"
    by (rule num_to_address_too_large)
next
  assume long: "40 < length (digits16 (nat \<bar>num\<bar>))"
  show "num_to_address num = Inl ValueError"
  proof (cases "num < 0")
    case True
    then show ?thesis
      by (rule num_to_address_negative)
  next
    case False
    with long have "\<not> nat num < 2 ^ 160"
      using length_digits16_le_40 [of "nat num"] by simp
    with False have "2 ^ 160 \<le> num"
      by (simp add: nat_less_iff)
    then show ?thesis
      by (rule num_to_address_too_large)
  qed
qed

lemma long_digits: "40 < length (digits16 (nat \<bar>2 ^ 160\<bar>))"
proof -
  have "nat \<bar>2 ^ 160 :: int\<bar> = 16 ^ 40"
    by simp
  then show ?thesis
    using length_digits16_gt [of 40 "16 ^ 40"] by simp
qed

theorem num_to_address_pads_and_checksums_witness:
  "(0::int) \<le> 2050 \<and> (2050::int) < 2 ^ 160 \<and>
   map_sum id length (num_to_address 2050) = Inr 42 \<and>
   40 < length (digits16 (nat \<bar>2 ^ 160\<bar>)) \<and> num_to_address (2 ^ 160) = Inl ValueError"
proof -
  have small: "(0::int) \<le> 2050" "(2050::int) < 2 ^ 160"
    by simp_all
  with num_to_address_pads_and_checksums [of 2050]
  have "map_sum id length (num_to_address 2050) = Inr 42"
    by blast
  moreover from num_to_address_pads_and_checksums [of "2 ^ 160"] long_digits
  have "num_to_address (2 ^ 160) = Inl ValueError"
    by blast
  ultimately show ?thesis
    using small long_digits by blast
qed

text \<open>
  C10. For every negative \<open>num\<close>, \<open>num_to_address num\<close> raises instead of returning an
  address: \<open>hex num\<close> starts with \<^verbatim>\<open>-0x\<close>, what is left after the first two characters
  starts with \<^verbatim>\<open>x\<close> and is no hex string, and the checksum conversion rejects it.
\<close>

theorem num_to_address_negative_raises:
  "num < 0 \<Longrightarrow>
     take 3 (hex num) = ''-0x'' \<and>
     hd (drop 2 (hex num)) = CHR ''x'' \<and>
     \<not> is_hexstr (drop 2 (hex num)) \<and>
     to_checksum_address (zfill 40 (drop 2 (hex num))) = Inl ValueError \<and>
     num_to_address num = Inl ValueError"
proof -
  assume neg: "num < 0"
  then have "num_to_address num = Inl ValueError"
    by (rule num_to_address_negative)
  moreover from this have "to_checksum_address (zfill 40 (drop 2 (hex num))) = Inl ValueError"
    by (simp add: num_to_address_def)
  moreover from neg have "\<not> is_hexstr (drop 2 (hex num))"
    using not_hex_x by (simp add: hex_neg is_hexstr_def remove_0x_prefix_def is_0x_prefixed_def)
  moreover from neg have "take 3 (hex num) = ''-0x''" and "hd (drop 2 (hex num)) = CHR ''x''"
    by (simp_all add: hex_def)
  ultimately show ?thesis
    by blast
qed

theorem num_to_address_negative_raises_witness:
  "(- 5 :: int) < 0 \<and> hex (- 5) = ''-0x5'' \<and> num_to_address (- 5) = Inl ValueError"
  using num_to_address_negative_raises [of "- 5"]
  by (simp add: hex_def digits16_small hex_digit_def)

section \<open>The contract call and the script\<close>

lemma contract_address: "CONTRACT_ADDRESS = Inr address_2050"
  by (simp add: CONTRACT_ADDRESS_def num_to_address_2050)

lemma encode_input_name:
  "encode_input encode ''name()'' [] [] = Inr (func_selector ''name()'')"
  by (simp add: encode_input_def encode_nothing)

lemma call_contract_oplog:
  "oplog (snd (call_contract nd s contract_addr input)) =
     oplog s @
     (case get_metadata nd (s_interface s) of
        Inl e \<Rightarrow> [Get_metadata]
      | Inr meta \<Rightarrow>
          (case create_scale_object nd (s_interface s) ''Call'' meta of
             Inl e \<Rightarrow> [Get_metadata, Create_scale_object ''Call'']
           | Inr call \<Rightarrow>
               (case scale_encode nd call (call_descriptor (s_keypair s) contract_addr input) of
                  Inl e \<Rightarrow>
                    [Get_metadata, Create_scale_object ''Call'',
                     Encode (call_descriptor (s_keypair s) contract_addr input)]
                | Inr cc \<Rightarrow>
                    [Get_metadata, Create_scale_object ''Call'',
                     Encode (call_descriptor (s_keypair s) contract_addr input),
                     Print (scale_bytes_str cc)])))"
  by (simp add: call_contract_def Let_def split: sum.splits)

lemma call_contract_stdout:
  "stdout (snd (call_contract nd s contract_addr input)) =
     stdout s @
     (case get_metadata nd (s_interface s) of
        Inl e \<Rightarrow> []
      | Inr meta \<Rightarrow>
          (case create_scale_object nd (s_interface s) ''Call'' meta of
             Inl e \<Rightarrow> []
           | Inr call \<Rightarrow>
               (case scale_encode nd call (call_descriptor (s_keypair s) contract_addr input) of
                  Inl e \<Rightarrow> []
                | Inr cc \<Rightarrow> [scale_bytes_str cc])))"
  by (simp add: call_contract_def Let_def split: sum.splits)

lemma call_contract_raised:
  "fst (call_contract nd s contract_addr input) =
     (case get_metadata nd (s_interface s) of
        Inl e \<Rightarrow> Some e
      | Inr meta \<Rightarrow>
          (case create_scale_object nd (s_interface s) ''Call'' meta of
             Inl e \<Rightarrow> Some e
           | Inr call \<Rightarrow>
               (case scale_encode nd call (call_descriptor (s_keypair s) contract_addr input) of
                  Inl e \<Rightarrow> Some e
                | Inr cc \<Rightarrow> None)))"
  by (simp add: call_contract_def Let_def split: sum.splits)

lemma call_contract_objects:
  "s_interface (snd (call_contract nd s contract_addr input)) = s_interface s"
  "s_keypair (snd (call_contract nd s contract_addr input)) = s_keypair s"
  by (simp_all add: call_contract_def Let_def split: sum.splits)

lemma init_interface_result:
  "init_interface nd ops =
     (case connect nd ''ws://127.0.0.1:9944'' True of
        Inl e \<Rightarrow> (Inl e, ops @ [Connect ''ws://127.0.0.1:9944'' True])
      | Inr substrate \<Rightarrow>
          (case init_runtime nd substrate of
             Inl e \<Rightarrow> (Inl e, ops @ [Connect ''ws://127.0.0.1:9944'' True, Init_runtime])
           | Inr substrate' \<Rightarrow>
               (Inr (update_type_registry type_overrides substrate'),
                ops @ [Connect ''ws://127.0.0.1:9944'' True, Init_runtime,
                       Update_type_registry type_overrides])))"
  by (simp add: init_interface_def Let_def split: sum.splits)

text \<open>The script, step by step.\<close>

lemma script_steps:
  "script nd =
    (case connect nd ''ws://127.0.0.1:9944'' True of
       Inl e \<Rightarrow>
         \<lparr>raised = Some e, printed = [], performed = [Connect ''ws://127.0.0.1:9944'' True]\<rparr>
     | Inr substrate \<Rightarrow>
    (case init_runtime nd substrate of
       Inl e \<Rightarrow>
         \<lparr>raised = Some e, printed = [],
          performed = [Connect ''ws://127.0.0.1:9944'' True, Init_runtime]\<rparr>
     | Inr substrate' \<Rightarrow>
    (case create_from_private_key nd alith_private_key ECDSA of
       Inl e \<Rightarrow>
         \<lparr>raised = Some e, printed = [],
          performed = [Connect ''ws://127.0.0.1:9944'' True, Init_runtime,
            Update_type_registry type_overrides,
            Create_from_private_key alith_private_key ECDSA]\<rparr>
     | Inr alith_keypair \<Rightarrow>
    (let s = \<lparr>s_interface = update_type_registry type_overrides substrate',
               s_keypair = alith_keypair, stdout = [],
               oplog = [Connect ''ws://127.0.0.1:9944'' True, Init_runtime,
                 Update_type_registry type_overrides,
                 Create_from_private_key alith_private_key ECDSA]\<rparr>
     in \<lparr>raised = fst (call_contract nd s address_2050 (func_selector ''name()'')),
         printed = stdout (snd (call_contract nd s address_2050 (func_selector ''name()''))),
         performed = oplog (snd (call_contract nd s address_2050 (func_selector ''name()'')))\<rparr>))))"
  by (simp add: script_def contract_address encode_input_name init_interface_result
      Let_def split_beta split: sum.splits)

text \<open>
  C5. \<open>call_contract\<close> builds a call descriptor of module \<^verbatim>\<open>EVM\<close> and function \<^verbatim>\<open>call\<close> and
  hands it to the encoder. Its arguments are fixed: value 0, gas limit and maximal fee per
  gas both 10000000, no priority fee and no nonce (\<^verbatim>\<open>None\<close>), an empty access list; the
  source is \<^verbatim>\<open>0x\<close> and the hex of the key pair's public key, the target is the given contract
  address, the input is the hex of the given bytes.
\<close>

theorem call_contract_descriptor:
  "get_metadata nd (s_interface s) = Inr meta \<Longrightarrow>
   create_scale_object nd (s_interface s) ''Call'' meta = Inr call \<Longrightarrow>
   take 3 (drop (length (oplog s)) (oplog (snd (call_contract nd s contract_addr input)))) =
     [Get_metadata, Create_scale_object ''Call'',
      Encode (call_descriptor (s_keypair s) contract_addr input)] \<and>
   fst (call_contract nd s contract_addr input) =
     (case scale_encode nd call (call_descriptor (s_keypair s) contract_addr input) of
        Inl e \<Rightarrow> Some e
      | Inr cc \<Rightarrow> None) \<and>
   py_keys (call_descriptor (s_keypair s) contract_addr input) =
     [''call_module'', ''call_function'', ''call_args''] \<and>
   py_get (call_descriptor (s_keypair s) contract_addr input) ''call_module'' =
     Some (PyStr ''EVM'') \<and>
   py_get (call_descriptor (s_keypair s) contract_addr input) ''call_function'' =
     Some (PyStr ''call'') \<and>
   map_option py_keys (py_get (call_descriptor (s_keypair s) contract_addr input) ''call_args'') =
     Some [''source'', ''target'', ''input'', ''value'', ''gas_limit'', ''max_fee_per_gas'',
           ''max_priority_fee_per_gas'', ''nonce'', ''access_list''] \<and>
   call_arg (call_descriptor (s_keypair s) contract_addr input) ''value'' = Some (PyInt 0) \<and>
   call_arg (call_descriptor (s_keypair s) contract_addr input) ''gas_limit'' =
     Some (PyInt 10000000) \<and>
   call_arg (call_descriptor (s_keypair s) contract_addr input) ''max_fee_per_gas'' =
     Some (PyInt 10000000) \<and>
   call_arg (call_descriptor (s_keypair s) contract_addr input) ''max_priority_fee_per_gas'' =
     Some PyNone \<and>
   call_arg (call_descriptor (s_keypair s) contract_addr input) ''nonce'' = Some PyNone \<and>
   call_arg (call_descriptor (s_keypair s) contract_addr input) ''access_list'' =
     Some (PyList []) \<and>
   call_arg (call_descriptor (s_keypair s) contract_addr input) ''source'' =
     Some (PyStr (''0x'' @ bytes_hex (public_key (s_keypair s)))) \<and>
   call_arg (call_descriptor (s_keypair s) contract_addr input) ''target'' =
     Some (PyStr contract_addr) \<and>
   call_arg (call_descriptor (s_keypair s) contract_addr input) ''input'' =
     Some (PyStr (bytes_hex input))"
  by (simp add: call_contract_oplog call_contract_raised call_descriptor_def call_arg_def
      split: sum.splits)

lemma mock_metadata: "get_metadata mock_node (s_interface mock_state) = Inr 14"
  by (simp add: mock_node_def)

lemma mock_scale_object:
  "create_scale_object mock_node (s_interface mock_state) ''Call'' 14 = Inr 51"
  by (simp add: mock_node_def)

theorem call_contract_descriptor_witness:
  "get_metadata mock_node (s_interface mock_state) = Inr 14 \<and>
   create_scale_object mock_node (s_interface mock_state) ''Call'' 14 = Inr 51 \<and>
   call_arg (call_descriptor (s_keypair mock_state) address_2050 (func_selector ''name()''))
     ''gas_limit'' = Some (PyInt 10000000) \<and>
   call_arg (call_descriptor (s_keypair mock_state) address_2050 (func_selector ''name()''))
     ''source'' = Some (PyStr ''0xf24ff3a9cf04c71dbc94d0b566f7a27b94566cac'') \<and>
   call_arg (call_descriptor (s_keypair mock_state) address_2050 (func_selector ''name()''))
     ''target'' = Some (PyStr ''0x0000000000000000000000000000000000000802'') \<and>
   call_arg (call_descriptor (s_keypair mock_state) address_2050 (func_selector ''name()''))
     ''input'' = Some (PyStr ''06fdde03'')"
proof -
  note call_contract_descriptor [OF mock_metadata mock_scale_object,
      of address_2050 "func_selector ''name()''"]
  then have "call_arg (call_descriptor (s_keypair mock_state) address_2050
        (func_selector ''name()'')) ''gas_limit'' = Some (PyInt 10000000)"
    and "call_arg (call_descriptor (s_keypair mock_state) address_2050
        (func_selector ''name()'')) ''source'' =
      Some (PyStr (''0x'' @ bytes_hex (public_key (s_keypair mock_state))))"
    and "call_arg (call_descriptor (s_keypair mock_state) address_2050
        (func_selector ''name()'')) ''target'' = Some (PyStr address_2050)"
    and "call_arg (call_descriptor (s_keypair mock_state) address_2050
        (func_selector ''name()'')) ''input'' = Some (PyStr (bytes_hex (func_selector ''name()'')))"
    by blast+
  moreover have "bytes_hex (func_selector ''name()'') = ''06fdde03''"
    by (simp add: func_selector_name bytes_hex_def hex_digit_def)
  moreover have "''0x'' @ bytes_hex (public_key (s_keypair mock_state)) =
      ''0xf24ff3a9cf04c71dbc94d0b566f7a27b94566cac''"
    by (simp add: mock_state_def mock_keypair_def bytes_hex_def hex_digit_def)
  ultimately show ?thesis
    using mock_metadata mock_scale_object by (simp add: address_2050_def)
qed

lemma call_contract_new_ops:
  "set (drop (length (oplog s)) (oplog (snd (call_contract nd s contract_addr input)))) \<subseteq>
     {Get_metadata, Create_scale_object ''Call'',
      Encode (call_descriptor (s_keypair s) contract_addr input)} \<union> range Print"
  by (auto simp: call_contract_oplog split: sum.splits)

text \<open>
  C6. In every run of the script the call is never signed and never submitted: no run
  performs the creation of a signed extrinsic or the submission of an extrinsic, nor does
  any call of \<open>call_contract\<close>; a run that raises nothing has encoded the call and printed
  the one line of its encoding.
\<close>

theorem script_never_signs_or_submits:
  "Create_signed_extrinsic \<notin> set (performed (script nd)) \<and>
   Submit_extrinsic \<notin> set (performed (script nd)) \<and>
   Create_signed_extrinsic \<notin>
     set (drop (length (oplog s)) (oplog (snd (call_contract nd s contract_addr input)))) \<and>
   Submit_extrinsic \<notin>
     set (drop (length (oplog s)) (oplog (snd (call_contract nd s contract_addr input)))) \<and>
   length (printed (script nd)) \<le> 1 \<and>
   (raised (script nd) = None \<longrightarrow>
      (\<exists>alith_keypair cc.
         performed (script nd) =
           [Connect ''ws://127.0.0.1:9944'' True, Init_runtime,
            Update_type_registry type_overrides,
            Create_from_private_key alith_private_key ECDSA,
            Get_metadata, Create_scale_object ''Call'',
            Encode (call_descriptor alith_keypair address_2050 (func_selector ''name()'')),
            Print (scale_bytes_str cc)] \<and>
         printed (script nd) = [scale_bytes_str cc]))"
proof (intro conjI)
  show "Create_signed_extrinsic \<notin> set (performed (script nd))"
    by (simp add: script_steps call_contract_oplog Let_def split: sum.splits)
  show "Submit_extrinsic \<notin> set (performed (script nd))"
    by (simp add: script_steps call_contract_oplog Let_def split: sum.splits)
  show "Create_signed_extrinsic \<notin>
      set (drop (length (oplog s)) (oplog (snd (call_contract nd s contract_addr input))))"
    using call_contract_new_ops [of s nd contract_addr input] by auto
  show "Submit_extrinsic \<notin>
      set (drop (length (oplog s)) (oplog (snd (call_contract nd s contract_addr input))))"
    using call_contract_new_ops [of s nd contract_addr input] by auto
  show "length (printed (script nd)) \<le> 1"
    by (simp add: script_steps call_contract_stdout Let_def split: sum.splits)
  show "raised (script nd) = None \<longrightarrow>
      (\<exists>alith_keypair cc.
         performed (script nd) =
           [Connect ''ws://127.0.0.1:9944'' True, Init_runtime,
            Update_type_registry type_overrides,
            Create_from_private_key alith_private_key ECDSA,
            Get_metadata, Create_scale_object ''Call'',
            Encode (call_descriptor alith_keypair address_2050 (func_selector ''name()'')),
            Print (scale_bytes_str cc)] \<and>
         printed (script nd) = [scale_bytes_str cc])"
    by (auto simp: script_steps Let_def call_contract_oplog
        call_contract_stdout call_contract_raised split: sum.splits)
qed

lemma mock_script:
  "raised (script mock_node) = None" "printed (script mock_node) = [''0x330109'']"
  by (simp_all add: script_steps Let_def call_contract_raised call_contract_stdout
      mock_node_def mock_encode_def call_descriptor_def scale_bytes_str_def bytes_hex_def
      hex_digit_def)

theorem script_never_signs_or_submits_witness:
  "raised (script mock_node) = None \<and>
   printed (script mock_node) = [''0x330109''] \<and>
   length (performed (script mock_node)) = 8 \<and>
   Create_signed_extrinsic \<notin> set (performed (script mock_node)) \<and>
   Submit_extrinsic \<notin> set (performed (script mock_node))"
proof -
  from script_never_signs_or_submits [of mock_node] mock_script(1)
  have "\<exists>alith_keypair cc.
         performed (script mock_node) =
           [Connect ''ws://127.0.0.1:9944'' True, Init_runtime,
            Update_type_registry type_overrides,
            Create_from_private_key alith_private_key ECDSA,
            Get_metadata, Create_scale_object ''Call'',
            Encode (call_descriptor alith_keypair address_2050 (func_selector ''name()'')),
            Print (scale_bytes_str cc)]"
    by blast
  then have "length (performed (script mock_node)) = 8"
    by auto
  with script_never_signs_or_submits [of mock_node] mock_script show ?thesis
    by blast
qed

section \<open>The type registry\<close>

lemma lower_names:
  "lower ''Address'' = ''address''" "lower ''LookupSource'' = ''lookupsource''"
  "lower ''Account'' = ''account''" "lower ''AccountId'' = ''accountid''"
  "lower ''Transaction'' = ''transaction''" "lower ''Signature'' = ''signature''"
  "lower ''H160'' = ''h160''"
  by (simp_all add: lower_def lower_char_def)

lemma mock_interface:
  "fst (init_interface mock_node []) =
     Inr \<lparr>handle = 1, type_registry = update_type_registry_types core_registry type_overrides\<rparr>"
  by (simp add: init_interface_result mock_node_def update_type_registry_def)

text \<open>
  C7. \<open>init_interface\<close> is to register the overrides so that the aliases \<^verbatim>\<open>Address\<close>,
  \<^verbatim>\<open>LookupSource\<close> and \<^verbatim>\<open>AccountId\<close> each resolve to \<^verbatim>\<open>H160\<close>. It does not: the entries are
  registered in the order written, and \<^verbatim>\<open>Address\<close> and \<^verbatim>\<open>LookupSource\<close> come before
  \<^verbatim>\<open>AccountId\<close>. Whatever the registry was, they name the class \<^verbatim>\<open>AccountId\<close> named before
  the update, and only \<^verbatim>\<open>AccountId\<close> itself names \<^verbatim>\<open>H160\<close>; on a registry like the library's
  core preset they name the 32-byte \<^verbatim>\<open>GenericAccountId\<close>.
\<close>

theorem init_interface_binds_aliases_in_order:
  "get_decoder_class (update_type_registry_types reg type_overrides) ''Address'' =
     get_decoder_class reg ''AccountId'' \<and>
   get_decoder_class (update_type_registry_types reg type_overrides) ''LookupSource'' =
     get_decoder_class reg ''AccountId'' \<and>
   get_decoder_class (update_type_registry_types reg type_overrides) ''AccountId'' =
     get_decoder_class reg ''H160'' \<and>
   map_sum id
     (\<lambda>substrate.
        map (get_decoder_class (type_registry substrate))
          [''Address'', ''LookupSource'', ''AccountId''])
     (fst (init_interface mock_node [])) =
     Inr [Some (Class ''GenericAccountId''), Some (Class ''GenericAccountId''),
          Some (Class ''H160'')]"
  by (simp add: mock_interface type_overrides_def get_decoder_class_def lower_names
      core_registry_def)

section \<open>What the call depends on\<close>

lemma call_descriptor_public_key:
  "public_key kp = public_key kp' \<Longrightarrow>
   call_descriptor kp contract_addr input = call_descriptor kp' contract_addr input"
  by (simp add: call_descriptor_def)

lemma mock_states_agree:
  "s_interface mock_state = s_interface mock_state_b"
  "public_key (s_keypair mock_state) = public_key (s_keypair mock_state_b)"
  "s_keypair mock_state \<noteq> s_keypair mock_state_b"
  by (simp_all add: mock_state_def mock_state_b_def mock_keypair_def)

text \<open>
  C9. The key pair is never mutated: after \<open>call_contract\<close> the key pair is the one
  passed in, every field unchanged; and the call reads only its public key: with any key
  pair of the same public key it does the same.
\<close>

theorem call_contract_keeps_keypair:
  "s_keypair (snd (call_contract nd s contract_addr input)) = s_keypair s \<and>
   (public_key kp = public_key (s_keypair s) \<longrightarrow>
      call_contract nd (s\<lparr>s_keypair := kp\<rparr>) contract_addr input =
        (fst (call_contract nd s contract_addr input),
         (snd (call_contract nd s contract_addr input))\<lparr>s_keypair := kp\<rparr>))"
proof (intro conjI impI)
  show "s_keypair (snd (call_contract nd s contract_addr input)) = s_keypair s"
    by (rule call_contract_objects)
next
  assume "public_key kp = public_key (s_keypair s)"
  then have "call_descriptor kp contract_addr input =
      call_descriptor (s_keypair s) contract_addr input"
    by (rule call_descriptor_public_key)
  then show "call_contract nd (s\<lparr>s_keypair := kp\<rparr>) contract_addr input =
        (fst (call_contract nd s contract_addr input),
         (snd (call_contract nd s contract_addr input))\<lparr>s_keypair := kp\<rparr>)"
    by (simp add: call_contract_def Let_def split: sum.splits)
qed

theorem call_contract_keeps_keypair_witness:
  "public_key (s_keypair mock_state_b) = public_key (s_keypair mock_state) \<and>
   s_keypair (snd (call_contract mock_node mock_state address_2050 [0x06, 0xfd, 0xde, 0x03])) =
     mock_keypair \<and>
   call_contract mock_node (mock_state\<lparr>s_keypair := s_keypair mock_state_b\<rparr>) address_2050
       [0x06, 0xfd, 0xde, 0x03] =
     (fst (call_contract mock_node mock_state address_2050 [0x06, 0xfd, 0xde, 0x03]),
      (snd (call_contract mock_node mock_state address_2050 [0x06, 0xfd, 0xde, 0x03]))
        \<lparr>s_keypair := s_keypair mock_state_b\<rparr>)"
proof -
  have same: "public_key (s_keypair mock_state_b) = public_key (s_keypair mock_state)"
    by (simp add: mock_states_agree)
  have "s_keypair mock_state = mock_keypair"
    by (simp add: mock_state_def)
  with call_contract_keeps_keypair [of mock_node mock_state address_2050
      "[0x06, 0xfd, 0xde, 0x03]" "s_keypair mock_state_b"] same
  show ?thesis
    by simp
qed

end
